theory Spec2Isabelle
  imports Main "HOL-Library.Char_ord" "HOL-Library.List_Lexorder" "HOL-Library.Product_Lexorder"
    "HOL-Library.Multiset"
begin

text \<open>
  The voucher workflow of the ZoomPay application, as its React Native screens implement
  it on Firebase: VoucherScreen (creating a voucher for an approved receipt, comments),
  PublisherScreen (the list of initiated payments, the upload of the proof of payment),
  SuperUserScreen (roles and companies), and the authentication context with the routing
  screen. Each handler of a screen is a function from the state it reads (the database,
  the storage bucket, the signed-in user, the state of the screen) and the answers of the
  outside world to the alerts it shows and the state it leaves.
\<close>

section \<open>JavaScript values\<close>

subsection \<open>Numbers and strings\<close>

text \<open>
  \<^verbatim>\<open>Date.now()\<close> is a count of milliseconds since the epoch, a natural number on every
  device whose clock is not set before 1970. \<^verbatim>\<open>Number.prototype.toString\<close> writes it in
  decimal without leading zeros. A string is the list of its characters, and the
  characters are those with a code below 256 (Latin-1): the texts a user types are taken
  from that range.
\<close>

definition digit_char :: "nat \<Rightarrow> char" where
  "digit_char d = ''0123456789'' ! d"

fun toString :: "nat \<Rightarrow> string" where
  "toString n = (if n < 10 then [digit_char n] else toString (n div 10) @ [digit_char (n mod 10)])"

declare toString.simps [simp del]

text \<open>\<^verbatim>\<open>s.slice(-k)\<close>: the last \<open>k\<close> characters, the whole string when it is shorter.\<close>

definition slice_neg :: "nat \<Rightarrow> string \<Rightarrow> string" where
  "slice_neg k s = drop (length s - k) s"

text \<open>
  \<^verbatim>\<open>s.trim()\<close> removes white space and line terminators at both ends. Of the characters
  below 256 these are tab, line feed, vertical tab, form feed, carriage return, space and
  the no-break space U+00A0.
\<close>

definition is_space :: "char \<Rightarrow> bool" where
  "is_space c = (c \<in> set [CHR 0x09, CHR 0x0A, CHR 0x0B, CHR 0x0C, CHR 0x0D, CHR '' '', CHR 0xA0])"

definition trim :: "string \<Rightarrow> string" where
  "trim s = rev (dropWhile is_space (rev (dropWhile is_space s)))"

text \<open>\<^verbatim>\<open>s.split(c)\<close> for a one-character separator; the result is never empty.\<close>

fun split_on :: "char \<Rightarrow> string \<Rightarrow> string list" where
  "split_on c [] = [[]]"
| "split_on c (x # xs) =
     (if x = c then [] # split_on c xs
      else (case split_on c xs of [] \<Rightarrow> [[x]] | w # ws \<Rightarrow> (x # w) # ws))"

text \<open>\<^verbatim>\<open>name.split('.').pop() || 'pdf'\<close>\<close>

definition fileExtension :: "string \<Rightarrow> string" where
  "fileExtension nm =
     (case rev (split_on CHR ''.'' nm) of
        [] \<Rightarrow> ''pdf''
      | e # _ \<Rightarrow> if e = [] then ''pdf'' else e)"

subsection \<open>Field values\<close>

text \<open>
  The values a Firestore document field holds in this application: strings (ISO time
  stamps among them), numbers, booleans, \<^verbatim>\<open>null\<close>, arrays and objects. A field that is
  absent reads as \<^verbatim>\<open>undefined\<close>, modelled by \<open>None\<close>.
\<close>

datatype fval = Str string | Num int | Bool bool | Null | Arr "fval list" | Obj "(string \<times> fval) list"

fun truthy :: "fval option \<Rightarrow> bool" where
  "truthy None = False"
| "truthy (Some (Str s)) = (s \<noteq> [])"
| "truthy (Some (Num n)) = (n \<noteq> 0)"
| "truthy (Some (Bool b)) = b"
| "truthy (Some Null) = False"
| "truthy (Some (Arr xs)) = True"
| "truthy (Some (Obj fs)) = True"

text \<open>\<^verbatim>\<open>a || b\<close>\<close>

definition js_or :: "fval option \<Rightarrow> fval option \<Rightarrow> fval option" where
  "js_or a b = (if truthy a then a else b)"

text \<open>\<^verbatim>\<open>v || 'literal'\<close>: always a value.\<close>

definition or_str :: "fval option \<Rightarrow> string \<Rightarrow> fval" where
  "or_str v dflt = (case v of None \<Rightarrow> Str dflt | Some x \<Rightarrow> if truthy (Some x) then x else Str dflt)"

text \<open>
  \<^verbatim>\<open>[...v]\<close>: the elements of an array, the characters of a string; any other value is not
  iterable and the spread throws a TypeError (\<open>None\<close>).
\<close>

fun spread :: "fval \<Rightarrow> fval list option" where
  "spread (Arr xs) = Some xs"
| "spread (Str s) = Some (map (\<lambda>c. Str [c]) s)"
| "spread (Num n) = None"
| "spread (Bool b) = None"
| "spread Null = None"
| "spread (Obj fs) = None"

section \<open>The Firebase services\<close>

subsection \<open>Firestore\<close>

text \<open>
  A document is a finite map from field names to values, a collection the list of its
  documents with their ids, the database a function from collection names to collections.
  A snapshot handed to the screens is the pair \<^verbatim>\<open>{ id: doc.id, ...doc.data() }\<close>; no write
  of the application stores a field named \<^verbatim>\<open>id\<close>, so the pair keeps the id apart.
\<close>

type_synonym doc = "string \<rightharpoonup> fval"
type_synonym snapshot = "string \<times> doc"
type_synonym collection = "snapshot list"
type_synonym firestore = "string \<Rightarrow> collection"

text \<open>The fields of an object literal, written left to right: a later key overrides.\<close>

definition set_fields :: "doc \<Rightarrow> (string \<times> fval) list \<Rightarrow> doc" where
  "set_fields d fs = foldl (\<lambda>m (k, v). m(k \<mapsto> v)) d fs"

text \<open>
  \<^verbatim>\<open>updateDoc(doc(db, col, i), fs)\<close> merges the fields into the stored document,
  unconditionally; it rejects (\<open>None\<close>) when the document does not exist. The database
  is taken to be reachable: a read or write fails for no other reason.
\<close>

definition updateDoc :: "firestore \<Rightarrow> string \<Rightarrow> string \<Rightarrow> (string \<times> fval) list \<Rightarrow> firestore option" where
  "updateDoc d col i fs =
     (if map_of (d col) i = None then None
      else Some (d(col := map (\<lambda>(k, x). if k = i then (k, set_fields x fs) else (k, x)) (d col))))"

text \<open>\<^verbatim>\<open>deleteDoc\<close> succeeds whether the document exists or not.\<close>

definition deleteDoc :: "firestore \<Rightarrow> string \<Rightarrow> string \<Rightarrow> firestore" where
  "deleteDoc d col i = d(col := filter (\<lambda>(k, x). k \<noteq> i) (d col))"

text \<open>\<^verbatim>\<open>where(f, '==', v)\<close>\<close>

definition where_eq :: "string \<Rightarrow> fval \<Rightarrow> collection \<Rightarrow> collection" where
  "where_eq f v c = filter (\<lambda>(k, x). x f = Some v) c"

text \<open>
  \<^verbatim>\<open>orderBy(f, 'desc')\<close>. Firestore returns only the documents that have the field,
  orders values of different types by type (null, boolean, number, string, array, map) and
  equal values by document id, in the direction of the clause. Arrays and maps are
  compared here by their type only.
\<close>

fun fval_key :: "fval \<Rightarrow> nat \<times> int \<times> string" where
  "fval_key Null = (0, 0, [])"
| "fval_key (Bool b) = (1, (if b then 1 else 0), [])"
| "fval_key (Num n) = (2, n, [])"
| "fval_key (Str s) = (3, 0, s)"
| "fval_key (Arr xs) = (4, 0, [])"
| "fval_key (Obj fs) = (5, 0, [])"

definition order_key :: "string \<Rightarrow> snapshot \<Rightarrow> (nat \<times> int \<times> string) \<times> string" where
  "order_key f sn = (case snd sn f of None \<Rightarrow> ((0, 0, []), fst sn) | Some v \<Rightarrow> (fval_key v, fst sn))"

definition orderBy_desc :: "string \<Rightarrow> collection \<Rightarrow> collection" where
  "orderBy_desc f c = rev (sort_key (order_key f) (filter (\<lambda>(k, x). x f \<noteq> None) c))"

subsection \<open>Storage, authentication, clock\<close>

text \<open>
  What one call of a handler gets from outside the program: the readings of the clock
  (\<^verbatim>\<open>Date.now()\<close> at its first and at its second call, \<^verbatim>\<open>new Date().toISOString()\<close>),
  the outcome of reading the picked file (\<^verbatim>\<open>fetch(uri)\<close> then \<^verbatim>\<open>.blob()\<close>, \<open>None\<close> when
  one of them throws), whether \<^verbatim>\<open>uploadBytes\<close> succeeds, the download URL the storage
  service gives for a path (\<open>None\<close> when \<^verbatim>\<open>getDownloadURL\<close> throws), the messages of the
  errors the run time and the services throw, and the uid Firebase Authentication gives
  to a new account.
\<close>

record env =
  dateNow :: nat
  dateNow2 :: nat
  isoNow :: string
  fetchBlob :: "string option \<Rightarrow> string option"
  uploadBytesOk :: bool
  getDownloadURL :: "string \<Rightarrow> string option"
  typeErrorMessage :: string
  sdkErrorMessage :: string
  newUid :: string

datatype js_error = JsError string

datatype alert = Alert string string

text \<open>\<^verbatim>\<open>error.message || dflt\<close>\<close>

fun message_or :: "js_error \<Rightarrow> string \<Rightarrow> string" where
  "message_or (JsError m) dflt = (if m = [] then dflt else m)"

record firebase_user =
  uid :: string
  email :: "string option"

text \<open>
  The state every screen works on: the database, the blobs of the storage bucket by path,
  the signed-in user of Firebase Authentication, and the \<^verbatim>\<open>userData\<close> of the
  authentication context.
\<close>

record app =
  db :: firestore
  storage :: "string \<rightharpoonup> string"
  authUser :: "firebase_user option"
  userData :: "doc option"

text \<open>\<^verbatim>\<open>auth.currentUser?.uid || dflt\<close>\<close>

definition uid_or :: "firebase_user option \<Rightarrow> string \<Rightarrow> string" where
  "uid_or u dflt = (case u of None \<Rightarrow> dflt | Some x \<Rightarrow> if uid x = [] then dflt else uid x)"

text \<open>\<^verbatim>\<open>userData?.name || dflt\<close>\<close>

definition userName_or :: "doc option \<Rightarrow> string \<Rightarrow> fval" where
  "userName_or ud dflt = (case ud of None \<Rightarrow> Str dflt | Some d \<Rightarrow> or_str (d ''name'') dflt)"

text \<open>
  Reading the picked file (\<^verbatim>\<open>fetch(uri)\<close>, \<^verbatim>\<open>response.blob()\<close>) and \<^verbatim>\<open>uploadBytes\<close>:
  the bucket with the blob under the path, \<open>None\<close> when one of the calls throws.
\<close>

definition uploadBytes :: "env \<Rightarrow> (string \<rightharpoonup> string) \<Rightarrow> string \<Rightarrow> string option \<Rightarrow> (string \<rightharpoonup> string) option" where
  "uploadBytes e st path u =
     (case fetchBlob e u of
        None \<Rightarrow> None
      | Some blob \<Rightarrow> if uploadBytesOk e then Some (st(path \<mapsto> blob)) else None)"

text \<open>
  The upload of the handlers, \<^verbatim>\<open>uploadBytes\<close> followed by \<^verbatim>\<open>getDownloadURL\<close>: the
  bucket as the calls leave it, and the download URL when all of them have returned
  (\<open>None\<close> when one has thrown; a blob stored before \<^verbatim>\<open>getDownloadURL\<close> throws stays).
\<close>

definition upload :: "env \<Rightarrow> (string \<rightharpoonup> string) \<Rightarrow> string \<Rightarrow> string option \<Rightarrow> (string \<rightharpoonup> string) \<times> string option" where
  "upload e st path u =
     (case uploadBytes e st path u of
        None \<Rightarrow> (st, None)
      | Some st' \<Rightarrow> (st', getDownloadURL e path))"

section \<open>VoucherScreen\<close>

text \<open>
  The state of a screen is what its handlers read and what they leave behind for the next
  handler. The flags that only drive spinners and disabled buttons (\<^verbatim>\<open>isLoading\<close>,
  \<^verbatim>\<open>refreshing\<close>, \<^verbatim>\<open>voucherCreating\<close>, \<^verbatim>\<open>loading\<close>, \<^verbatim>\<open>uploadingId\<close>) are set and
  reset by the handlers and read by none of them; they are left out. A handler returns the
  alerts it shows and the new state.
\<close>

record voucher_file =
  uri :: "string option"
  mimeType :: "string option"
  name :: "string option"

record voucher_form =
  description :: string
  voucherFile :: "voucher_file option"

record voucher_screen = app +
  receipts :: "snapshot list"
  vouchers :: "snapshot list"
  selectedReceipt :: "snapshot option"
  selectedVoucher :: "snapshot option"
  showVoucherModal :: bool
  showCommentModal :: bool
  comment :: string
  voucherForm :: voucher_form
  voucherFormErrors :: "string \<rightharpoonup> string"

text \<open>
  \<^verbatim>\<open>fetchApprovedReceipts\<close> builds \<^verbatim>\<open>{ id, imageUrl: data.receiptUrl || data.imageUrl, ...data }\<close>:
  the spread of \<^verbatim>\<open>data\<close> comes last, so the computed \<^verbatim>\<open>imageUrl\<close> stays only when the
  document has no such field.
\<close>

definition receipt_of :: "snapshot \<Rightarrow> snapshot" where
  "receipt_of sn =
     (case snd sn ''imageUrl'' of
        Some v \<Rightarrow> sn
      | None \<Rightarrow> (case js_or (snd sn ''receiptUrl'') None of
                   None \<Rightarrow> sn
                 | Some v \<Rightarrow> (fst sn, (snd sn)(''imageUrl'' \<mapsto> v))))"

definition fetchApprovedReceipts :: "firestore \<Rightarrow> snapshot list" where
  "fetchApprovedReceipts d =
     map receipt_of (orderBy_desc ''approvedAt'' (where_eq ''status'' (Str ''approved'') (d ''vouchers'')))"

definition fetchCreatedVouchers :: "firestore \<Rightarrow> firebase_user option \<Rightarrow> snapshot list" where
  "fetchCreatedVouchers d u =
     orderBy_desc ''createdAt'' (where_eq ''createdBy'' (Str (uid_or u [])) (d ''vouchers''))"

definition fetchData :: "voucher_screen \<Rightarrow> voucher_screen" where
  "fetchData s = s\<lparr>receipts := fetchApprovedReceipts (db s),
                   vouchers := fetchCreatedVouchers (db s) (authUser s)\<rparr>"

text \<open>\<^verbatim>\<open>const ticketNumber = `VOC${Date.now().toString().slice(-6)}`\<close>\<close>

definition ticketNumber :: "nat \<Rightarrow> string" where
  "ticketNumber now = ''VOC'' @ slice_neg 6 (toString now)"

definition formErrors :: "voucher_form \<Rightarrow> (string \<rightharpoonup> string)" where
  "formErrors f =
     (let errors = Map.empty;
          errors = (if trim (description f) = [] then errors(''description'' \<mapsto> ''Description is required'') else errors);
          errors = (if voucherFile f = None then errors(''voucherFile'' \<mapsto> ''Voucher document is required'') else errors)
      in errors)"

text \<open>The object \<^verbatim>\<open>submitVoucher\<close> passes to \<^verbatim>\<open>updateDoc\<close>: one write holds all its fields.\<close>

definition voucherUpdate :: "env \<Rightarrow> voucher_screen \<Rightarrow> string \<Rightarrow> (string \<times> fval) list" where
  "voucherUpdate e s voucherUrl =
     [(''voucherUrl'', Str voucherUrl),
      (''status'', Str ''voucher_created''),
      (''processedBy'', Str (uid_or (authUser s) [])),
      (''processedByName'', userName_or (userData s) ''Unknown''),
      (''processedAt'', Str (isoNow e)),
      (''description'', Str (description (voucherForm s))),
      (''ticketNumber'', Str (ticketNumber (dateNow2 e)))]"

definition storageFileName :: "env \<Rightarrow> voucher_screen \<Rightarrow> string \<Rightarrow> string" where
  "storageFileName e s nm =
     ''vouchers/'' @ toString (dateNow e) @ ''-'' @ uid_or (authUser s) ''unknown'' @ ''.'' @ fileExtension nm"

text \<open>
  The \<^verbatim>\<open>try\<close> block of \<^verbatim>\<open>submitVoucher\<close>: \<open>Inl\<close> is the error thrown, with the state at
  that point (what the upload has stored stays in the bucket when a later step fails).
\<close>

definition submitVoucher_try :: "env \<Rightarrow> snapshot \<Rightarrow> voucher_screen \<Rightarrow> js_error \<times> voucher_screen + voucher_screen" where
  "submitVoucher_try e rc s =
     (case voucherFile (voucherForm s) of
        None \<Rightarrow> Inl (JsError ''No voucher file selected'', s)
      | Some f \<Rightarrow>
          (case name f of
             None \<Rightarrow> Inl (JsError (typeErrorMessage e), s)
           | Some nm \<Rightarrow>
               (case upload e (storage s) (storageFileName e s nm) (uri f) of
                  (st, None) \<Rightarrow> Inl (JsError (''File upload failed: '' @ sdkErrorMessage e), s\<lparr>storage := st\<rparr>)
                | (st, Some voucherUrl) \<Rightarrow>
                    (case updateDoc (db s) ''vouchers'' (fst rc) (voucherUpdate e s voucherUrl) of
                       None \<Rightarrow> Inl (JsError (sdkErrorMessage e), s\<lparr>storage := st\<rparr>)
                     | Some d \<Rightarrow> Inr (fetchData (s\<lparr>storage := st, db := d, showVoucherModal := False\<rparr>))))))"

definition submitVoucher :: "env \<Rightarrow> voucher_screen \<Rightarrow> alert list \<times> voucher_screen" where
  "submitVoucher e s =
     (case selectedReceipt s of
        None \<Rightarrow> ([], s)
      | Some rc \<Rightarrow>
          if trim (description (voucherForm s)) = [] \<or> voucherFile (voucherForm s) = None
          then ([], s\<lparr>voucherFormErrors := formErrors (voucherForm s)\<rparr>)
          else (case submitVoucher_try e rc s of
                  Inl (err, s') \<Rightarrow>
                    ([Alert ''Error'' (''Failed to create voucher: '' @ message_or err ''Unknown error'')], s')
                | Inr s' \<Rightarrow> ([Alert ''Success'' ''Voucher created successfully!''], s')))"

text \<open>\<^verbatim>\<open>[...(selectedVoucher.comments || []), newComment]\<close> starts from the comments of the snapshot.\<close>

definition snapshotComments :: "snapshot \<Rightarrow> fval list option" where
  "snapshotComments sv =
     (case js_or (snd sv ''comments'') (Some (Arr [])) of None \<Rightarrow> None | Some v \<Rightarrow> spread v)"

definition newComment :: "env \<Rightarrow> voucher_screen \<Rightarrow> fval" where
  "newComment e s =
     Obj [(''text'', Str (comment s)),
          (''createdAt'', Str (isoNow e)),
          (''createdBy'', Str (uid_or (authUser s) [])),
          (''createdByName'', userName_or (userData s) ''Unknown User''),
          (''role'', Str ''voucher'')]"

definition addComment :: "env \<Rightarrow> voucher_screen \<Rightarrow> alert list \<times> voucher_screen" where
  "addComment e s =
     (case selectedVoucher s of
        None \<Rightarrow> ([], s)
      | Some sv \<Rightarrow>
          if trim (comment s) = [] then ([Alert ''Empty Comment'' ''Please enter a comment''], s)
          else (case snapshotComments sv of
                  None \<Rightarrow> ([Alert ''Error'' ''Failed to add comment''], s)
                | Some cs \<Rightarrow>
                    (case updateDoc (db s) ''vouchers'' (fst sv) [(''comments'', Arr (cs @ [newComment e s]))] of
                       None \<Rightarrow> ([Alert ''Error'' ''Failed to add comment''], s)
                     | Some d \<Rightarrow>
                         ([Alert ''Success'' ''Comment added successfully''],
                          fetchData (s\<lparr>db := d, comment := [], showCommentModal := False\<rparr>)))))"

text \<open>
  \<^verbatim>\<open>handleCreateVoucher\<close> and \<^verbatim>\<open>handleViewComments\<close> select the item the user tapped
  in the list of receipts and in the list of vouchers.
\<close>

definition handleCreateVoucher :: "snapshot \<Rightarrow> voucher_screen \<Rightarrow> voucher_screen" where
  "handleCreateVoucher receipt s =
     s\<lparr>selectedReceipt := Some receipt,
       voucherForm := \<lparr>description = [], voucherFile = None\<rparr>,
       voucherFormErrors := Map.empty,
       showVoucherModal := True\<rparr>"

definition handleViewComments :: "snapshot \<Rightarrow> voucher_screen \<Rightarrow> voucher_screen" where
  "handleViewComments voucher s = s\<lparr>selectedVoucher := Some voucher, showCommentModal := True\<rparr>"


definition onChangeDescription :: "string \<Rightarrow> voucher_screen \<Rightarrow> voucher_screen" where
  "onChangeDescription txt s =
     (let s = s\<lparr>voucherForm := (voucherForm s)\<lparr>description := txt\<rparr>\<rparr>
      in case voucherFormErrors s ''description'' of
           None \<Rightarrow> s
         | Some m \<Rightarrow> if m = [] then s else s\<lparr>voucherFormErrors := (voucherFormErrors s)(''description'' := None)\<rparr>)"

text \<open>
  \<^verbatim>\<open>pickVoucherDocument\<close>: when the picker neither was cancelled nor failed, the form gets
  \<^verbatim>\<open>voucherFile: { uri }\<close>, an object with the \<^verbatim>\<open>uri\<close> of the first asset and no other
  field, and the error noted for the file is cleared.
\<close>

definition pickVoucherDocument :: "bool \<Rightarrow> string option \<Rightarrow> string option list option \<Rightarrow> voucher_screen \<Rightarrow> voucher_screen" where
  "pickVoucherDocument cancelled code picked s =
     (if cancelled then s
      else if code \<noteq> None \<and> code \<noteq> Some [] then s
      else s\<lparr>voucherForm := (voucherForm s)\<lparr>voucherFile :=
                 Some \<lparr>uri = (case picked of Some (a # _) \<Rightarrow> a | _ \<Rightarrow> None), mimeType = None, name = None\<rparr>\<rparr>,
             voucherFormErrors := (voucherFormErrors s)(''voucherFile'' := None)\<rparr>)"

section \<open>PublisherScreen\<close>

text \<open>
  The screen's list is its state \<^verbatim>\<open>vouchers\<close>, named \<open>publisherVouchers\<close> here to keep it
  apart from the list of VoucherScreen.
\<close>

record publisher_screen = app +
  publisherVouchers :: "snapshot list"

definition fetchVouchers :: "publisher_screen \<Rightarrow> publisher_screen" where
  "fetchVouchers s =
     s\<lparr>publisherVouchers :=
         orderBy_desc ''createdAt'' (where_eq ''status'' (Str ''payment_initiated'') (db s ''receipts''))\<rparr>"

text \<open>What \<^verbatim>\<open>fetchVouchers\<close> reads of a document: its id, its status and its \<^verbatim>\<open>createdAt\<close>.\<close>

definition listed_fields :: "snapshot \<Rightarrow> string \<times> fval option \<times> fval option" where
  "listed_fields sn = (fst sn, snd sn ''status'', snd sn ''createdAt'')"

text \<open>What the image picker answers: each asset is the \<^verbatim>\<open>uri\<close> of a picked file.\<close>

record picker_response =
  didCancel :: bool
  errorCode :: "string option"
  canceled :: bool
  assets :: "string option list option"

definition paidFileName :: "string \<Rightarrow> nat \<Rightarrow> string" where
  "paidFileName i now = ''paid_vouchers/'' @ i @ ''-'' @ toString now @ ''.pdf''"

text \<open>
  The callback handed to the picker uploads the picked file under a name of its own and
  writes no document; a failure inside it does not reach the caller. (As written the
  callback uses \<^verbatim>\<open>await\<close> without being \<^verbatim>\<open>async\<close> and lacks a closing brace; it is read
  with both supplied.)
\<close>

definition pickerCallback :: "env \<Rightarrow> picker_response \<Rightarrow> snapshot \<Rightarrow> (string \<rightharpoonup> string) \<Rightarrow> (string \<rightharpoonup> string)" where
  "pickerCallback e r voucher st =
     (if \<not> didCancel r \<and> (errorCode r = None \<or> errorCode r = Some [])
      then (case assets r of
              Some (file # _) \<Rightarrow>
                (case uploadBytes e st (paidFileName (fst voucher) (dateNow e)) file of
                   None \<Rightarrow> st
                 | Some st' \<Rightarrow> st')
            | _ \<Rightarrow> st)
      else st)"

text \<open>\<^verbatim>\<open>userData?.name || (auth.currentUser?.email ?? 'Unknown User')\<close>\<close>

definition publishedBy :: "publisher_screen \<Rightarrow> fval" where
  "publishedBy s =
     (let fallback = (case authUser s of
                        None \<Rightarrow> ''Unknown User''
                      | Some u \<Rightarrow> (case email u of None \<Rightarrow> ''Unknown User'' | Some em \<Rightarrow> em))
      in userName_or (userData s) fallback)"

definition paidUpdate :: "env \<Rightarrow> publisher_screen \<Rightarrow> string \<Rightarrow> (string \<times> fval) list" where
  "paidUpdate e s paidPdfUrl =
     [(''paidPdfUrl'', Str paidPdfUrl),
      (''status'', Str ''payment_done''),
      (''publishedBy'', publishedBy s),
      (''publishedAt'', Str (isoNow e))]"

definition uploadPaidPDF :: "env \<Rightarrow> picker_response \<Rightarrow> snapshot \<Rightarrow> publisher_screen \<Rightarrow> alert list \<times> publisher_screen" where
  "uploadPaidPDF e r voucher s0 =
     (let s = s0\<lparr>storage := pickerCallback e r voucher (storage s0)\<rparr> in
      case assets r of
        None \<Rightarrow> ([], s)
      | Some [] \<Rightarrow> ([], s)
      | Some (a # _) \<Rightarrow>
          if canceled r then ([], s)
          else (case upload e (storage s) (paidFileName (fst voucher) (dateNow2 e)) a of
                  (st, None) \<Rightarrow> ([Alert ''Error'' ''Failed to upload paid PDF''], s\<lparr>storage := st\<rparr>)
                | (st, Some paidPdfUrl) \<Rightarrow>
                    (case updateDoc (db s) ''receipts'' (fst voucher) (paidUpdate e s paidPdfUrl) of
                       None \<Rightarrow> ([Alert ''Error'' ''Failed to upload paid PDF''], s\<lparr>storage := st\<rparr>)
                     | Some d \<Rightarrow>
                         ([Alert ''Success'' ''Paid PDF uploaded and status updated!''],
                          fetchVouchers (s\<lparr>storage := st, db := d\<rparr>)))))"

section \<open>SuperUserScreen\<close>

record user_form =
  company :: string
  role :: string
  userType :: string

record superuser_screen = app +
  users :: "snapshot list"
  companies :: "snapshot list"
  selectedUser :: "snapshot option"
  userForm :: user_form
  showEditUserModal :: bool

text \<open>\<^verbatim>\<open>fetchUsers\<close> adds a display field \<^verbatim>\<open>userType\<close> to every snapshot.\<close>

definition displayUserType :: "doc \<Rightarrow> string" where
  "displayUserType d =
     (if truthy (d ''company'') then ''Company''
      else if d ''designation'' = Some (Str ''finance'') \<or> d ''designation'' = Some (Str ''voucher_create'')
      then ''Finance'' else ''ZoomPay'')"

definition fetchUsers :: "superuser_screen \<Rightarrow> superuser_screen" where
  "fetchUsers s =
     s\<lparr>users := map (\<lambda>(i, d). (i, d(''userType'' \<mapsto> Str (displayUserType d))))
                    (orderBy_desc ''createdAt'' (db s ''users''))\<rparr>"

text \<open>A query without \<^verbatim>\<open>orderBy\<close> returns the documents by id.\<close>

definition fetchCompanies :: "superuser_screen \<Rightarrow> superuser_screen" where
  "fetchCompanies s = s\<lparr>companies := sort_key fst (db s ''companies'')\<rparr>"

text \<open>The \<^verbatim>\<open>updates\<close> object of \<^verbatim>\<open>updateUser\<close>.\<close>

definition userUpdates :: "user_form \<Rightarrow> (string \<times> fval) list" where
  "userUpdates f =
     (if userType f = ''company'' \<and> company f \<noteq> [] then [(''company'', Str (company f)), (''bank'', Null)]
      else if userType f = ''finance'' \<or> userType f = ''zoompay'' then [(''company'', Null), (''bank'', Null)]
      else [])
     @ (if role f \<noteq> [] then [(''designation'', Str (role f)), (''pending'', Bool False), (''approved'', Bool True)]
        else [])"

definition updateUser :: "env \<Rightarrow> superuser_screen \<Rightarrow> alert list \<times> superuser_screen" where
  "updateUser e s =
     (case selectedUser s of
        None \<Rightarrow> ([], s)
      | Some u \<Rightarrow>
          (case updateDoc (db s) ''users'' (fst u)
                  (userUpdates (userForm s)
                   @ [(''updatedAt'', Str (isoNow e)), (''updatedBy'', Str (uid_or (authUser s) ''unknown''))]) of
             None \<Rightarrow> ([Alert ''Error'' ''Could not update user. Please try again.''], s)
           | Some d \<Rightarrow>
               ([Alert ''Success'' ''User updated successfully''],
                fetchUsers (s\<lparr>db := d, showEditUserModal := False,
                              userForm := \<lparr>company = [], role = [], userType = ''company''\<rparr>,
                              selectedUser := None\<rparr>))))"

text \<open>
  A write batch: \<^verbatim>\<open>batch.update\<close> for every id, then \<^verbatim>\<open>batch.commit()\<close>, which applies
  all the updates or, when one of the documents is missing, none.
\<close>

definition batch_commit :: "firestore \<Rightarrow> string \<Rightarrow> string list \<Rightarrow> (string \<times> fval) list \<Rightarrow> firestore option" where
  "batch_commit d col ids fs =
     fold (\<lambda>i acc. case acc of None \<Rightarrow> None | Some x \<Rightarrow> updateDoc x col i fs) ids (Some d)"

text \<open>
  \<^verbatim>\<open>deleteCompany\<close> asks first; \<open>pressDelete\<close> says whether the user pressed "Delete"
  (and not "Cancel") in the dialogue.
\<close>

definition deleteCompany :: "bool \<Rightarrow> string \<Rightarrow> string \<Rightarrow> superuser_screen \<Rightarrow> alert list \<times> superuser_screen" where
  "deleteCompany pressDelete companyId companyName s =
     (let ask = Alert ''Delete Company'' (''Are you sure you want to delete '' @ companyName @ ''?'') in
      if \<not> pressDelete then ([ask], s)
      else
        (let d1 = deleteDoc (db s) ''companies'' companyId;
             querySnapshot = where_eq ''company'' (Str companyId) (d1 ''users'')
         in case batch_commit d1 ''users'' (map fst querySnapshot) [(''company'', Null)] of
              None \<Rightarrow> ([ask, Alert ''Error'' ''Could not delete company. Please try again.''], s\<lparr>db := d1\<rparr>)
            | Some d2 \<Rightarrow>
                ([ask, Alert ''Success'' ''Company deleted successfully''],
                 fetchUsers (fetchCompanies (s\<lparr>db := d2\<rparr>)))))"

section \<open>AuthContext and AuthLoadingScreen\<close>

text \<open>
  The provider's state, with the accounts of Firebase Authentication (e-mail, password,
  uid) beside it.
\<close>

record auth_context = app +
  accounts :: "(string \<times> string \<times> string) list"
  currentUser :: "firebase_user option"
  isLoading :: bool
  error :: "string option"

definition setDoc :: "firestore \<Rightarrow> string \<Rightarrow> string \<Rightarrow> doc \<Rightarrow> firestore" where
  "setDoc d col i x = d(col := (i, x) # filter (\<lambda>(k, y). k \<noteq> i) (d col))"

definition fetchUserData :: "firebase_user \<Rightarrow> auth_context \<Rightarrow> doc option \<times> auth_context" where
  "fetchUserData user s =
     (case map_of (db s ''users'') (uid user) of
        None \<Rightarrow> (None, s)
      | Some d \<Rightarrow> (Some d, s\<lparr>userData := Some d\<rparr>))"

definition signInWithEmailAndPassword :: "(string \<times> string \<times> string) list \<Rightarrow> string \<Rightarrow> string \<Rightarrow> firebase_user option" where
  "signInWithEmailAndPassword acc em pw =
     (case find (\<lambda>(a, p, u). a = em) acc of
        None \<Rightarrow> None
      | Some (a, p, u) \<Rightarrow> if p = pw then Some \<lparr>uid = u, email = Some a\<rparr> else None)"

text \<open>
  The object \<^verbatim>\<open>signUp\<close> writes: fields whose value is \<^verbatim>\<open>undefined\<close> are not stored.
  \<^verbatim>\<open>createUserWithEmailAndPassword\<close> rejects an e-mail address that has an account.
\<close>

definition defined_fields :: "(string \<times> fval option) list \<Rightarrow> (string \<times> fval) list" where
  "defined_fields fs = concat (map (\<lambda>(k, v). case v of None \<Rightarrow> [] | Some x \<Rightarrow> [(k, x)]) fs)"

definition signUpData :: "env \<Rightarrow> string \<Rightarrow> doc \<Rightarrow> doc" where
  "signUpData e em data =
     set_fields Map.empty
       (defined_fields
          [(''uid'', Some (Str (newUid e))),
           (''email'', Some (Str em)),
           (''name'', data ''name''),
           (''designation'', data ''designation''),
           (''company'', data ''company''),
           (''bank'', data ''bank''),
           (''contact'', data ''contact''),
           (''pending'', Some (Bool True)),
           (''approved'', Some (Bool False)),
           (''createdAt'', Some (Str (isoNow e)))])"

definition signUp :: "env \<Rightarrow> string \<Rightarrow> string \<Rightarrow> doc \<Rightarrow> auth_context \<Rightarrow> (js_error + doc) \<times> auth_context" where
  "signUp e em pw data s0 =
     (let s = s0\<lparr>error := None\<rparr> in
      if find (\<lambda>(a, p, u). a = em) (accounts s) \<noteq> None
      then (Inl (JsError (sdkErrorMessage e)),
            s\<lparr>error := Some (message_or (JsError (sdkErrorMessage e)) ''An error occurred during sign up'')\<rparr>)
      else
        (let ud = signUpData e em data in
         (Inr ud,
          s\<lparr>accounts := accounts s @ [(em, pw, newUid e)],
            authUser := Some \<lparr>uid = newUid e, email = Some em\<rparr>,
            db := setDoc (db s) ''users'' (newUid e) ud,
            userData := Some ud\<rparr>)))"

definition signInFailed :: "js_error \<Rightarrow> auth_context \<Rightarrow> (js_error + doc) \<times> auth_context" where
  "signInFailed err s = (Inl err, s\<lparr>error := Some (message_or err ''An error occurred during sign in'')\<rparr>)"

definition signIn :: "env \<Rightarrow> string \<Rightarrow> string \<Rightarrow> auth_context \<Rightarrow> (js_error + doc) \<times> auth_context" where
  "signIn e em pw s0 =
     (let s = s0\<lparr>error := None\<rparr> in
      case signInWithEmailAndPassword (accounts s) em pw of
        None \<Rightarrow> signInFailed (JsError (sdkErrorMessage e)) s
      | Some user \<Rightarrow>
          (case fetchUserData user (s\<lparr>authUser := Some user\<rparr>) of
             (None, s1) \<Rightarrow> signInFailed (JsError ''Failed to fetch user data after login'') s1
           | (Some ud, s1) \<Rightarrow>
               if truthy (ud ''pending'') \<or> \<not> truthy (ud ''designation'')
               then signInFailed
                      (JsError ''Your account is pending approval. Please wait for a SuperUser to assign you a role.'')
                      (s1\<lparr>authUser := None\<rparr>)
               else (Inr ud, s1)))"

definition logout :: "auth_context \<Rightarrow> auth_context" where
  "logout s = s\<lparr>error := None, authUser := None\<rparr>"

text \<open>The listener of \<^verbatim>\<open>onAuthStateChanged\<close>, run after the signed-in user has changed.\<close>

definition onAuthStateChanged :: "auth_context \<Rightarrow> auth_context" where
  "onAuthStateChanged s =
     (case authUser s of
        None \<Rightarrow> s\<lparr>currentUser := None, userData := None, isLoading := False\<rparr>
      | Some user \<Rightarrow>
          s\<lparr>currentUser := Some user, userData := map_of (db s ''users'') (uid user), isLoading := False\<rparr>)"

text \<open>
  The effect of AuthLoadingScreen: the alerts it shows, the screen it replaces itself with
  (after the alert's button, when there is one) and the state it leaves.
\<close>

definition routeFor :: "fval option \<Rightarrow> string" where
  "routeFor designation =
     (if designation = Some (Str ''superuser'') then ''SuperUser''
      else if designation = Some (Str ''admin'') then ''Admin''
      else if designation = Some (Str ''finance'') then ''Finance''
      else if designation = Some (Str ''voucher_create'') then ''Voucher''
      else if designation = Some (Str ''checker'') then ''Checker''
      else if designation = Some (Str ''initiator'') then ''InitiatorScreen''
      else if designation = Some (Str ''payment_releaser'') then ''PaymentReleasorScreen''
      else if designation = Some (Str ''payee'') then ''PayeeScreen''
      else ''Home'')"

definition AuthLoadingScreen :: "auth_context \<Rightarrow> alert list \<times> string option \<times> auth_context" where
  "AuthLoadingScreen s =
     (if isLoading s then ([], None, s)
      else case currentUser s of
             None \<Rightarrow> ([], Some ''Splash'', s)
           | Some user \<Rightarrow>
               (case userData s of
                  None \<Rightarrow> ([], None, s)
                | Some ud \<Rightarrow>
                    if truthy (ud ''pending'') \<or> \<not> truthy (ud ''designation'')
                    then ([Alert ''Account Pending Approval''
                             ''Your account has not been approved yet. Please wait for a SuperUser to assign you a role.''],
                          Some ''Login'', logout s)
                    else ([], Some (routeFor (ud ''designation'')), s)))"

section \<open>Reading the stored state\<close>

text \<open>The value of field \<open>f\<close> of document \<open>i\<close> of collection \<open>col\<close>, \<open>None\<close> when there is none.\<close>

definition stored :: "'a app_scheme \<Rightarrow> string \<Rightarrow> string \<Rightarrow> string \<Rightarrow> fval option" where
  "stored s col i f = (case map_of (db s col) i of None \<Rightarrow> None | Some d \<Rightarrow> d f)"

text \<open>Every company a user profile names is a document of the collection of companies.\<close>

definition company_refs_exist :: "firestore \<Rightarrow> bool" where
  "company_refs_exist d =
     list_all (\<lambda>(i, x). case x ''company'' of Some (Str c) \<Rightarrow> c \<in> set (map fst (d ''companies'')) | _ \<Rightarrow> True)
       (d ''users'')"

text \<open>
  The profiles as \<^verbatim>\<open>signUp\<close> writes them and \<^verbatim>\<open>updateUser\<close> changes them: \<^verbatim>\<open>approved\<close> is
  true exactly when \<^verbatim>\<open>pending\<close> is false.
\<close>

definition approval_consistent :: "doc \<Rightarrow> bool" where
  "approval_consistent d =
     (d ''pending'' = Some (Bool True) \<and> d ''approved'' = Some (Bool False)
      \<or> d ''pending'' = Some (Bool False) \<and> d ''approved'' = Some (Bool True))"

definition profiles_consistent :: "firestore \<Rightarrow> bool" where
  "profiles_consistent d = list_all (\<lambda>(i, x). approval_consistent x) (d ''users'')"

section \<open>Example states\<close>

definition ex_env :: "nat \<Rightarrow> nat \<Rightarrow> env" where
  "ex_env t1 t2 =
     \<lparr>dateNow = t1, dateNow2 = t2, isoNow = ''2023-11-14T22:13:20.000Z'',
      fetchBlob = (\<lambda>u. case u of None \<Rightarrow> None | Some x \<Rightarrow> Some ''%PDF''),
      uploadBytesOk = True,
      getDownloadURL = (\<lambda>p. Some (''https://storage/'' @ p)),
      typeErrorMessage = ''undefined is not an object'',
      sdkErrorMessage = ''unavailable'',
      newUid = ''u9''\<rparr>"

definition ex_r1 :: snapshot where
  "ex_r1 = (''r1'', [''status'' \<mapsto> Str ''approved'',
                    ''createdAt'' \<mapsto> Str ''2023-11-01T08:00:00.000Z'',
                    ''approvedAt'' \<mapsto> Str ''2023-11-02T08:00:00.000Z'',
                    ''receiptUrl'' \<mapsto> Str ''https://storage/receipts/r1.jpg''])"

definition ex_r2 :: snapshot where
  "ex_r2 = (''r2'', [''status'' \<mapsto> Str ''approved'',
                    ''createdAt'' \<mapsto> Str ''2023-11-03T08:00:00.000Z'',
                    ''approvedAt'' \<mapsto> Str ''2023-11-04T08:00:00.000Z'',
                    ''receiptUrl'' \<mapsto> Str ''https://storage/receipts/r2.jpg''])"

definition ex_form :: voucher_form where
  "ex_form = \<lparr>description = ''May invoice'',
              voucherFile = Some \<lparr>uri = Some ''file:///v.pdf'', mimeType = Some ''application/pdf'',
                                  name = Some ''v.pdf''\<rparr>\<rparr>"

definition ex_voucher_screen :: voucher_screen where
  "ex_voucher_screen =
     \<lparr>db = (\<lambda>c. if c = ''vouchers'' then [ex_r1, ex_r2] else []),
      storage = Map.empty,
      authUser = Some \<lparr>uid = ''u1'', email = Some ''vera@zoom.example''\<rparr>,
      userData = Some [''name'' \<mapsto> Str ''Vera'', ''designation'' \<mapsto> Str ''voucher_create''],
      receipts = [ex_r2, ex_r1], vouchers = [], selectedReceipt = None, selectedVoucher = None,
      showVoucherModal = False, showCommentModal = False, comment = [],
      voucherForm = \<lparr>description = [], voucherFile = None\<rparr>,
      voucherFormErrors = Map.empty\<rparr>"

text \<open>The user taps a receipt of the list and fills the form in.\<close>

definition ex_fill :: "snapshot \<Rightarrow> voucher_screen \<Rightarrow> voucher_screen" where
  "ex_fill rc s = (handleCreateVoucher rc s)\<lparr>voucherForm := ex_form\<rparr>"

definition ex_p1 :: snapshot where
  "ex_p1 = (''p1'', [''status'' \<mapsto> Str ''payment_initiated'',
                    ''createdAt'' \<mapsto> Str ''2023-10-01T08:00:00.000Z'',
                    ''processedAt'' \<mapsto> Str ''2023-10-20T08:00:00.000Z'',
                    ''imageUrl'' \<mapsto> Str ''https://storage/receipts/p1.jpg''])"

definition ex_p2 :: snapshot where
  "ex_p2 = (''p2'', [''status'' \<mapsto> Str ''payment_initiated'',
                    ''createdAt'' \<mapsto> Str ''2023-10-05T08:00:00.000Z'',
                    ''processedAt'' \<mapsto> Str ''2023-10-10T08:00:00.000Z'',
                    ''imageUrl'' \<mapsto> Str ''https://storage/receipts/p2.jpg''])"

definition ex_publisher_screen :: publisher_screen where
  "ex_publisher_screen =
     \<lparr>db = (\<lambda>c. if c = ''receipts'' then [ex_p1, ex_p2] else []),
      storage = Map.empty,
      authUser = Some \<lparr>uid = ''u5'', email = Some ''pat@zoom.example''\<rparr>,
      userData = Some [''name'' \<mapsto> Str ''Pat'', ''designation'' \<mapsto> Str ''publisher''],
      publisherVouchers = []\<rparr>"

text \<open>The same receipts with other stamps of processing: here p1 was processed first.\<close>

definition ex_publisher_screen' :: publisher_screen where
  "ex_publisher_screen' =
     ex_publisher_screen\<lparr>db := (\<lambda>c. if c = ''receipts''
        then [(''p1'', (snd ex_p1)(''processedAt'' \<mapsto> Str ''2023-10-08T08:00:00.000Z'')),
              (''p2'', (snd ex_p2)(''processedAt'' \<mapsto> Str ''2023-10-25T08:00:00.000Z''))]
        else [])\<rparr>"

definition ex_picked :: picker_response where
  "ex_picked = \<lparr>didCancel = False, errorCode = None, canceled = False, assets = Some [Some ''file:///paid.pdf'']\<rparr>"

lemmas ex_publisher_defs = ex_env_def ex_p1_def ex_p2_def ex_publisher_screen_def ex_picked_def


text \<open>
  The user taps receipt r1 of the list, types a description and picks a file with the
  picker: the form as the handlers of the screen fill it.
\<close>

definition ex_picked_screen :: voucher_screen where
  "ex_picked_screen =
     pickVoucherDocument False None (Some [Some ''file:///v.pdf''])
       (onChangeDescription ''May invoice'' (handleCreateVoucher ex_r1 ex_voucher_screen))"

text \<open>A second publisher, with the same two receipts on the list.\<close>

definition ex_publisher_screen_B :: publisher_screen where
  "ex_publisher_screen_B =
     ex_publisher_screen\<lparr>authUser := Some \<lparr>uid = ''u9'', email = Some ''quinn@zoom.example''\<rparr>,
                         userData := Some [''name'' \<mapsto> Str ''Quinn'', ''designation'' \<mapsto> Str ''publisher''],
                         publisherVouchers := [ex_p2, ex_p1]\<rparr>"

text \<open>Receipt r1 as another screen has left it in the meantime.\<close>

definition ex_r1_rejected :: snapshot where
  "ex_r1_rejected = (''r1'', (snd ex_r1)(''status'' \<mapsto> Str ''rejected''))"

text \<open>A second device works on the backend the first one has left.\<close>

definition on_backend_of :: "'a app_scheme \<Rightarrow> 'b app_scheme \<Rightarrow> 'b app_scheme" where
  "on_backend_of s t = t\<lparr>db := db s, storage := storage s\<rparr>"

definition ex_comment1 :: fval where
  "ex_comment1 = Obj [(''text'', Str ''Receipt looks fine''), (''createdAt'', Str ''2023-11-05T09:00:00.000Z''),
                      (''createdBy'', Str ''u1''), (''createdByName'', Str ''Vera''), (''role'', Str ''voucher'')]"

definition ex_comment2 :: fval where
  "ex_comment2 = Obj [(''text'', Str ''Amount checked''), (''createdAt'', Str ''2023-11-06T09:00:00.000Z''),
                      (''createdBy'', Str ''u7''), (''createdByName'', Str ''Chen''), (''role'', Str ''checker'')]"

definition ex_v1 :: "fval list \<Rightarrow> snapshot" where
  "ex_v1 cs = (''v1'', [''status'' \<mapsto> Str ''voucher_created'', ''createdBy'' \<mapsto> Str ''u1'',
                       ''createdAt'' \<mapsto> Str ''2023-11-01T08:00:00.000Z'',
                       ''receiptUrl'' \<mapsto> Str ''https://storage/receipts/v1.jpg'',
                       ''voucherUrl'' \<mapsto> Str ''https://storage/vouchers/v1.pdf'',
                       ''comments'' \<mapsto> Arr cs])"

text \<open>The screen shows voucher v1 as it was fetched, with the comments \<open>seen\<close>, while the
  database holds the comments \<open>kept\<close>; the user has typed \<open>txt\<close>.\<close>

definition ex_comment_screen :: "fval list \<Rightarrow> fval list \<Rightarrow> string \<Rightarrow> voucher_screen" where
  "ex_comment_screen seen kept txt =
     (handleViewComments (ex_v1 seen)
        (ex_voucher_screen\<lparr>db := (\<lambda>c. if c = ''vouchers'' then [ex_v1 kept] else []),
                           vouchers := [ex_v1 seen]\<rparr>))\<lparr>comment := txt\<rparr>"



lemmas ex_comment_defs = ex_comment1_def ex_comment2_def ex_v1_def ex_comment_screen_def
  handleViewComments_def ex_voucher_screen_def ex_env_def ex_r1_def ex_r2_def

definition ex_pia :: doc where
  "ex_pia = [''uid'' \<mapsto> Str ''u3'', ''email'' \<mapsto> Str ''pia@zoom.example'', ''name'' \<mapsto> Str ''Pia'',
             ''designation'' \<mapsto> Str ''payee'', ''contact'' \<mapsto> Str ''555-0103'',
             ''pending'' \<mapsto> Bool True, ''approved'' \<mapsto> Bool False,
             ''createdAt'' \<mapsto> Str ''2023-11-10T08:00:00.000Z'']"

definition ex_fay :: doc where
  "ex_fay = [''uid'' \<mapsto> Str ''u4'', ''email'' \<mapsto> Str ''fay@zoom.example'', ''name'' \<mapsto> Str ''Fay'',
             ''designation'' \<mapsto> Str ''finance'', ''contact'' \<mapsto> Str ''555-0104'',
             ''pending'' \<mapsto> Bool False, ''approved'' \<mapsto> Bool True,
             ''createdAt'' \<mapsto> Str ''2023-11-08T08:00:00.000Z'']"

definition ex_auth :: auth_context where
  "ex_auth =
     \<lparr>db = (\<lambda>c. if c = ''users'' then [(''u3'', ex_pia), (''u4'', ex_fay)] else []),
      storage = Map.empty, authUser = None, userData = None,
      accounts = [(''pia@zoom.example'', ''pw-pia'', ''u3''), (''fay@zoom.example'', ''pw-fay'', ''u4'')],
      currentUser = None, isLoading = False, error = None\<rparr>"

lemmas ex_auth_defs = ex_pia_def ex_fay_def ex_auth_def ex_env_def

definition ex_cam :: doc where
  "ex_cam = [''uid'' \<mapsto> Str ''u6'', ''email'' \<mapsto> Str ''cam@acme.example'', ''name'' \<mapsto> Str ''Cam'',
             ''designation'' \<mapsto> Str ''payee'', ''company'' \<mapsto> Str ''c1'',
             ''pending'' \<mapsto> Bool False, ''approved'' \<mapsto> Bool True,
             ''createdAt'' \<mapsto> Str ''2023-11-07T08:00:00.000Z'']"

definition ex_dee :: doc where
  "ex_dee = [''uid'' \<mapsto> Str ''u8'', ''email'' \<mapsto> Str ''dee@bolt.example'', ''name'' \<mapsto> Str ''Dee'',
             ''designation'' \<mapsto> Str ''payee'', ''company'' \<mapsto> Str ''c2'',
             ''pending'' \<mapsto> Bool False, ''approved'' \<mapsto> Bool True,
             ''createdAt'' \<mapsto> Str ''2023-11-06T08:00:00.000Z'']"

definition ex_superuser_screen :: superuser_screen where
  "ex_superuser_screen =
     \<lparr>db = (\<lambda>c. if c = ''users'' then [(''u3'', ex_pia), (''u4'', ex_fay), (''u6'', ex_cam), (''u8'', ex_dee)]
                 else if c = ''companies'' then [(''c1'', [''name'' \<mapsto> Str ''Acme'']), (''c2'', [''name'' \<mapsto> Str ''Bolt''])]
                 else []),
      storage = Map.empty,
      authUser = Some \<lparr>uid = ''u0'', email = Some ''sam@zoom.example''\<rparr>,
      userData = Some [''name'' \<mapsto> Str ''Sam'', ''designation'' \<mapsto> Str ''superuser''],
      users = [], companies = [], selectedUser = None,
      userForm = \<lparr>company = [], role = [], userType = ''company''\<rparr>,
      showEditUserModal = False\<rparr>"

lemmas ex_superuser_defs = ex_superuser_screen_def ex_pia_def ex_fay_def ex_cam_def ex_dee_def ex_env_def

lemmas ex_defs = ex_env_def ex_r1_def ex_r2_def ex_form_def ex_voucher_screen_def ex_fill_def
  handleCreateVoucher_def

lemmas uploadPaidPDF_defs = uploadPaidPDF_def pickerCallback_def paidFileName_def upload_def uploadBytes_def
  updateDoc_def fetchVouchers_def paidUpdate_def publishedBy_def userName_or_def or_str_def
  set_fields_def stored_def toString.simps digit_char_def


lemmas addComment_defs = addComment_def snapshotComments_def js_or_def newComment_def trim_def is_space_def
  updateDoc_def set_fields_def stored_def fetchData_def userName_or_def or_str_def uid_or_def

section \<open>Decimal digits\<close>

definition digit_val :: "char \<Rightarrow> nat" where
  "digit_val c = of_char c - 48"

definition dec_val :: "string \<Rightarrow> nat" where
  "dec_val s = foldl (\<lambda>a c. 10 * a + digit_val c) 0 s"

lemma digit_val_digit_char: "d < 10 \<Longrightarrow> digit_val (digit_char d) = d"
proof -
  assume "d < 10"
  then have "d \<in> {0, 1, 2, 3, 4, 5, 6, 7, 8, 9}" by auto
  then show ?thesis
    by (auto simp: digit_val_def digit_char_def)
qed

lemma dec_val_snoc: "dec_val (s @ [c]) = 10 * dec_val s + digit_val c"
  by (simp add: dec_val_def)

lemma slice_neg_snoc: "slice_neg (Suc k) (s @ [c]) = slice_neg k s @ [c]"
  by (simp add: slice_neg_def)

text \<open>The last \<open>k\<close> digits of a number, read as a number, are the number modulo \<open>10 ^ k\<close>.\<close>

lemma dec_val_slice_toString: "dec_val (slice_neg k (toString n)) = n mod 10 ^ k"
proof (induction k arbitrary: n)
  case 0
  show ?case by (simp add: slice_neg_def dec_val_def)
next
  case (Suc k)
  show ?case
  proof (cases "n < 10")
    case True
    then have "toString n = [digit_char n]" by (simp add: toString.simps)
    moreover have "n < 10 * 10 ^ k"
    proof -
      have "(1::nat) \<le> 10 ^ k" by simp
      with True show ?thesis by linarith
    qed
    ultimately show ?thesis
      using True by (simp add: slice_neg_def dec_val_def digit_val_digit_char)
  next
    case False
    then have ts: "toString n = toString (n div 10) @ [digit_char (n mod 10)]"
      by (subst toString.simps) simp
    have "dec_val (slice_neg (Suc k) (toString n)) = 10 * ((n div 10) mod 10 ^ k) + n mod 10"
      by (simp add: ts slice_neg_snoc dec_val_snoc Suc.IH digit_val_digit_char)
    also have "\<dots> = n mod 10 ^ Suc k"
      by (simp add: mod_mult2_eq add.commute)
    finally show ?thesis .
  qed
qed

lemma ticketNumber_mod: "ticketNumber a = ticketNumber b \<Longrightarrow> a mod 10 ^ 6 = b mod 10 ^ 6"
proof -
  assume "ticketNumber a = ticketNumber b"
  then have "slice_neg 6 (toString a) = slice_neg 6 (toString b)"
    by (simp add: ticketNumber_def)
  then have "dec_val (slice_neg 6 (toString a)) = dec_val (slice_neg 6 (toString b))"
    by simp
  then show ?thesis by (simp only: dec_val_slice_toString)
qed

text \<open>A number written with exactly \<open>k\<close> digits, leading zeros included.\<close>

fun fixed_digits :: "nat \<Rightarrow> nat \<Rightarrow> string" where
  "fixed_digits 0 m = []"
| "fixed_digits (Suc k) m = fixed_digits k (m div 10) @ [digit_char (m mod 10)]"

lemma toString_not_Nil: "toString n \<noteq> []"
  by (subst toString.simps) simp

lemma length_toString: "10 ^ k \<le> n \<Longrightarrow> Suc k \<le> length (toString n)"
proof (induction k arbitrary: n)
  case 0
  have "toString n \<noteq> []" by (rule toString_not_Nil)
  then show ?case by (cases "toString n") simp_all
next
  case (Suc k)
  from Suc.prems have le: "10 ^ k * 10 \<le> n" by simp
  have "(1::nat) \<le> 10 ^ k" by simp
  with le have "\<not> n < 10" by linarith
  then have ts: "toString n = toString (n div 10) @ [digit_char (n mod 10)]"
    by (subst toString.simps) simp
  from le have "10 ^ k \<le> n div 10" by (simp add: less_eq_div_iff_mult_less_eq)
  from Suc.IH [OF this] show ?case by (simp add: ts)
qed

lemma slice_neg_toString:
  "k \<le> length (toString n) \<Longrightarrow> slice_neg k (toString n) = fixed_digits k (n mod 10 ^ k)"
proof (induction k arbitrary: n)
  case 0
  show ?case by (simp add: slice_neg_def)
next
  case (Suc k)
  have split: "n mod (10 * 10 ^ k) = 10 * (n div 10 mod 10 ^ k) + n mod 10"
    by (rule mod_mult2_eq)
  have d: "n mod 10 ^ Suc k div 10 = n div 10 mod 10 ^ k" and m: "n mod 10 ^ Suc k mod 10 = n mod 10"
    by (simp_all add: split)
  show ?case
  proof (cases "n < 10")
    case True
    then have ts: "toString n = [digit_char n]" by (simp add: toString.simps)
    with Suc.prems have "k = 0" by simp
    with True ts show ?thesis by (simp add: slice_neg_def)
  next
    case False
    then have ts: "toString n = toString (n div 10) @ [digit_char (n mod 10)]"
      by (subst toString.simps) simp
    with Suc.prems have "k \<le> length (toString (n div 10))" by simp
    from Suc.IH [OF this] show ?thesis
      unfolding ts slice_neg_snoc fixed_digits.simps d m by simp
  qed
qed

lemma ticketNumber_eq_iff:
  assumes "10 ^ 5 \<le> a" "10 ^ 5 \<le> b"
  shows "ticketNumber a = ticketNumber b \<longleftrightarrow> a mod 10 ^ 6 = b mod 10 ^ 6"
proof
  assume "ticketNumber a = ticketNumber b"
  then show "a mod 10 ^ 6 = b mod 10 ^ 6" by (rule ticketNumber_mod)
next
  assume e: "a mod 10 ^ 6 = b mod 10 ^ 6"
  from length_toString [OF assms(1)] have "6 \<le> length (toString a)" by simp
  then have a: "slice_neg 6 (toString a) = fixed_digits 6 (a mod 10 ^ 6)" by (rule slice_neg_toString)
  from length_toString [OF assms(2)] have "6 \<le> length (toString b)" by simp
  then have b: "slice_neg 6 (toString b) = fixed_digits 6 (b mod 10 ^ 6)" by (rule slice_neg_toString)
  from a b e show "ticketNumber a = ticketNumber b"
    by (simp only: ticketNumber_def)
qed

section \<open>Firestore writes\<close>

lemma set_fields_apply:
  "set_fields d fs k = (case map_of (rev fs) k of None \<Rightarrow> d k | Some v \<Rightarrow> Some v)"
  by (induction fs arbitrary: d) (auto simp: set_fields_def map_add_def split: option.splits)

lemma map_of_map_update:
  "map_of (map (\<lambda>(k, x). if k = i then (k, g x) else (k, x)) xs) j =
     (if j = i then map_option g (map_of xs j) else map_of xs j)"
  by (induction xs) auto

lemma updateDoc_Some:
  "updateDoc d col i fs = Some d' \<Longrightarrow>
     map_of (d col) i \<noteq> None \<and>
     d' = d(col := map (\<lambda>(k, x). if k = i then (k, set_fields x fs) else (k, x)) (d col))"
  by (auto simp: updateDoc_def split: if_splits)

lemma updateDoc_exists:
  "map_of (d col) i = Some x \<Longrightarrow> \<exists>d'. updateDoc d col i fs = Some d'"
  by (simp add: updateDoc_def)

lemma map_of_updateDoc:
  "updateDoc d col i fs = Some d' \<Longrightarrow>
     map_of (d' col) j =
       (if j = i then map_option (\<lambda>x. set_fields x fs) (map_of (d col) j) else map_of (d col) j)"
  by (auto dest!: updateDoc_Some simp: map_of_map_update)

lemma updateDoc_other_collection:
  "updateDoc d col i fs = Some d' \<Longrightarrow> c \<noteq> col \<Longrightarrow> d' c = d c"
  by (auto dest!: updateDoc_Some)

lemma updateDoc_ids:
  "updateDoc d col i fs = Some d' \<Longrightarrow> map fst (d' col) = map fst (d col)"
  by (auto dest!: updateDoc_Some simp: case_prod_beta)

lemma stored_after_updateDoc:
  "updateDoc (db s) col i fs = Some (db s') \<Longrightarrow>
     stored s' col j f =
       (if j = i then (case map_of (rev fs) f of None \<Rightarrow> stored s col j f | Some v \<Rightarrow> Some v)
        else stored s col j f)"
  by (auto simp: stored_def map_of_updateDoc set_fields_apply dest!: updateDoc_Some split: option.splits)

section \<open>The outcomes of submitVoucher\<close>

lemma db_fetchData [simp]: "db (fetchData s) = db s"
  by (simp add: fetchData_def)

lemma storage_fetchData [simp]: "storage (fetchData s) = storage s"
  by (simp add: fetchData_def)

lemma selectedReceipt_fetchData [simp]: "selectedReceipt (fetchData s) = selectedReceipt s"
  by (simp add: fetchData_def)

lemma voucherForm_fetchData [simp]: "voucherForm (fetchData s) = voucherForm s"
  by (simp add: fetchData_def)

lemma authUser_fetchData [simp]: "authUser (fetchData s) = authUser s"
  by (simp add: fetchData_def)

lemma userData_fetchData [simp]: "userData (fetchData s) = userData s"
  by (simp add: fetchData_def)

lemma submitVoucher_Success:
  assumes "submitVoucher e s = ([Alert ''Success'' ''Voucher created successfully!''], s')"
  shows "\<exists>rc f nm st url d.
           selectedReceipt s = Some rc \<and> trim (description (voucherForm s)) \<noteq> [] \<and>
           voucherFile (voucherForm s) = Some f \<and> name f = Some nm \<and>
           upload e (storage s) (storageFileName e s nm) (uri f) = (st, Some url) \<and>
           updateDoc (db s) ''vouchers'' (fst rc) (voucherUpdate e s url) = Some d \<and>
           s' = fetchData (s\<lparr>storage := st, db := d, showVoucherModal := False\<rparr>)"
  using assms
  by (auto simp: submitVoucher_def submitVoucher_try_def
      split: option.splits if_splits sum.splits prod.splits)

lemma submitVoucher_db_cases:
  assumes "submitVoucher e s = (al, s')"
  shows "db s' = db s \<or> al = [Alert ''Success'' ''Voucher created successfully!'']"
  using assms
  by (auto simp: submitVoucher_def submitVoucher_try_def
      split: option.splits if_splits sum.splits prod.splits)

lemma voucherUpdate_fields:
  "map_of (rev (voucherUpdate e s url)) ''ticketNumber'' = Some (Str (ticketNumber (dateNow2 e)))"
  "map_of (rev (voucherUpdate e s url)) ''voucherUrl'' = Some (Str url)"
  "map_of (rev (voucherUpdate e s url)) ''status'' = Some (Str ''voucher_created'')"
  by (simp_all add: voucherUpdate_def)

text \<open>
  A remark on the form as the screen fills it: \<^verbatim>\<open>pickVoucherDocument\<close> stores no
  \<^verbatim>\<open>name\<close>, so \<^verbatim>\<open>name.split('.')\<close> throws and \<^verbatim>\<open>submitVoucher\<close> ends in its
  \<^verbatim>\<open>catch\<close> without a write. The success path needs a file object that carries a name,
  as the destructuring \<^verbatim>\<open>{ uri, mimeType, name }\<close> expects.
\<close>

lemma submitVoucher_after_pickVoucherDocument:
  assumes "selectedReceipt s = Some rc" "trim (description (voucherForm s)) \<noteq> []"
  shows "submitVoucher e (pickVoucherDocument False None picked s) =
           ([Alert ''Error'' (''Failed to create voucher: '' @ message_or (JsError (typeErrorMessage e)) ''Unknown error'')],
            pickVoucherDocument False None picked s)"
  using assms by (simp add: submitVoucher_def submitVoucher_try_def pickVoucherDocument_def)

section \<open>Ticket numbers\<close>

lemma submitVoucher_ticketNumber:
  assumes "submitVoucher e s = (al, s')"
  shows "stored s' ''vouchers'' i ''ticketNumber'' = stored s ''vouchers'' i ''ticketNumber''
       \<or> stored s' ''vouchers'' i ''ticketNumber'' = Some (Str (ticketNumber (dateNow2 e)))"
proof (cases "al = [Alert ''Success'' ''Voucher created successfully!'']")
  case False
  with submitVoucher_db_cases [OF assms] have "db s' = db s" by blast
  then show ?thesis by (simp add: stored_def)
next
  case True
  from submitVoucher_Success [OF assms [unfolded True]] obtain rc st url d where
    u: "updateDoc (db s) ''vouchers'' (fst rc) (voucherUpdate e s url) = Some d"
    and s': "s' = fetchData (s\<lparr>storage := st, db := d, showVoucherModal := False\<rparr>)"
    by auto
  from s' have d: "db s' = d" by simp
  from u have "map_of (db s ''vouchers'') (fst rc) \<noteq> None" by (auto dest: updateDoc_Some)
  with map_of_updateDoc [OF u, of i] show ?thesis
    by (auto simp: stored_def d set_fields_apply voucherUpdate_fields split: option.splits)
qed

text \<open>
  C1 (as the specification states it: any two distinct voucher creations get different
  ticket numbers, by a collision-free generator that combines a counter with a
  high-resolution time stamp and never uses a truncated time stamp alone). The generator
  of \<^verbatim>\<open>submitVoucher\<close> is the last six decimal digits of the millisecond clock and
  nothing else: two readings of the clock 1000 seconds apart give the same ticket number,
  VOC000000.
\<close>

theorem ticketNumber_collision:
  "ticketNumber 1700000000000 = ''VOC000000'' \<and> ticketNumber 1700001000000 = ''VOC000000''"
  by (simp add: ticketNumber_def slice_neg_def toString.simps digit_char_def)

text \<open>
  C1, amended: the ticket number \<^verbatim>\<open>submitVoucher\<close> computes is "VOC" followed by the
  last six decimal digits of the millisecond clock read at that moment, and nothing else;
  a call leaves the \<^verbatim>\<open>ticketNumber\<close> of every stored record as it was or sets it to
  this value. So two readings of the clock give different ticket numbers whenever they
  differ modulo 1000000, and the same ticket number whenever they agree modulo 1000000
  (for readings of at least six digits, as all are since 1970). Whether a call gets as far
  as its write is left open here; the remark above says what happens to the form that
  \<^verbatim>\<open>pickVoucherDocument\<close> fills.
\<close>

theorem ticketNumbers_differ_modulo_million:
  assumes "submitVoucher e s = (al, s')"
  shows "(stored s' ''vouchers'' i ''ticketNumber'' = stored s ''vouchers'' i ''ticketNumber''
          \<or> stored s' ''vouchers'' i ''ticketNumber'' = Some (Str (ticketNumber (dateNow2 e))))
       \<and> (a mod 10 ^ 6 \<noteq> b mod 10 ^ 6 \<longrightarrow> ticketNumber a \<noteq> ticketNumber b)
       \<and> (10 ^ 5 \<le> a \<longrightarrow> 10 ^ 5 \<le> b \<longrightarrow> a mod 10 ^ 6 = b mod 10 ^ 6 \<longrightarrow> ticketNumber a = ticketNumber b)"
proof (intro conjI impI)
  show "stored s' ''vouchers'' i ''ticketNumber'' = stored s ''vouchers'' i ''ticketNumber''
          \<or> stored s' ''vouchers'' i ''ticketNumber'' = Some (Str (ticketNumber (dateNow2 e)))"
    using assms by (rule submitVoucher_ticketNumber)
next
  assume "a mod 10 ^ 6 \<noteq> b mod 10 ^ 6"
  then show "ticketNumber a \<noteq> ticketNumber b" using ticketNumber_mod by blast
next
  assume "10 ^ 5 \<le> a" "10 ^ 5 \<le> b" "a mod 10 ^ 6 = b mod 10 ^ 6"
  then show "ticketNumber a = ticketNumber b" using ticketNumber_eq_iff by blast
qed

text \<open>
  C1, at the example: a call on the form as the screen fills it, which leaves receipt r1
  without a ticket number, and readings of the clock one millisecond and 3000 seconds
  apart.
\<close>

theorem ticketNumbers_differ_witness:
  "(stored (snd (submitVoucher (ex_env 1700000000000 1700000000000) ex_picked_screen)) ''vouchers'' ''r1'' ''ticketNumber''
      = stored ex_picked_screen ''vouchers'' ''r1'' ''ticketNumber''
    \<or> stored (snd (submitVoucher (ex_env 1700000000000 1700000000000) ex_picked_screen)) ''vouchers'' ''r1'' ''ticketNumber''
      = Some (Str (ticketNumber 1700000000000)))
   \<and> stored (snd (submitVoucher (ex_env 1700000000000 1700000000000) ex_picked_screen)) ''vouchers'' ''r1'' ''ticketNumber''
      = None
   \<and> ticketNumber 1700000000000 \<noteq> ticketNumber 1700000000001
   \<and> ticketNumber 1700000000000 = ticketNumber 1700003000000"
proof -
  let ?e = "ex_env 1700000000000 1700000000000"
  have p: "submitVoucher ?e ex_picked_screen = (fst (submitVoucher ?e ex_picked_screen), snd (submitVoucher ?e ex_picked_screen))"
    by simp
  have t: "dateNow2 ?e = 1700000000000" by (simp add: ex_env_def)
  note a = ticketNumbers_differ_modulo_million [OF p, of "''r1''" 1700000000000 1700000000001]
  note b = ticketNumbers_differ_modulo_million [OF p, of "''r1''" 1700000000000 1700003000000]
  from a have 1: "ticketNumber 1700000000000 \<noteq> ticketNumber 1700000000001" by simp
  from b have 2: "ticketNumber 1700000000000 = ticketNumber 1700003000000" by simp
  have 3: "stored (snd (submitVoucher ?e ex_picked_screen)) ''vouchers'' ''r1'' ''ticketNumber'' = None"
    by (simp add: ex_picked_screen_def pickVoucherDocument_def onChangeDescription_def handleCreateVoucher_def
        Let_def ex_voucher_screen_def ex_r1_def ex_r2_def submitVoucher_def submitVoucher_try_def
        trim_def is_space_def stored_def)
  from a t 1 2 3 show ?thesis by simp
qed

section \<open>Attachments and status\<close>


lemma upload_succeeds:
  "fetchBlob e u = Some blob \<Longrightarrow> uploadBytesOk e \<Longrightarrow> getDownloadURL e path = Some url \<Longrightarrow>
     upload e st path u = (st(path \<mapsto> blob), Some url)"
  by (simp add: upload_def uploadBytes_def)

lemma submitVoucher_not_Success:
  assumes "submitVoucher e s = (al, s')" "al \<noteq> [Alert ''Success'' ''Voucher created successfully!'']"
  shows "db s' = db s"
  using submitVoucher_db_cases [OF assms(1)] assms(2) by blast


lemma db_fetchVouchers [simp]: "db (fetchVouchers s) = db s"
  by (simp add: fetchVouchers_def)

lemma storage_fetchVouchers [simp]: "storage (fetchVouchers s) = storage s"
  by (simp add: fetchVouchers_def)

lemma paidUpdate_storage [simp]: "paidUpdate e (s\<lparr>storage := st\<rparr>) url = paidUpdate e s url"
  by (simp add: paidUpdate_def publishedBy_def)







section \<open>Validation of the voucher form\<close>

text \<open>
  C4: with a receipt selected and no voucher file in the form, \<^verbatim>\<open>submitVoucher\<close> ends at
  its validation: it records "Voucher document is required" for the field
  \<^verbatim>\<open>voucherFile\<close> in the form errors (the screen's validation error), shows no alert, and
  leaves the database and the bucket as they were.
\<close>

theorem submitVoucher_without_attachment:
  assumes "selectedReceipt s = Some rc" and "voucherFile (voucherForm s) = None"
  shows "submitVoucher e s = ([], s\<lparr>voucherFormErrors := formErrors (voucherForm s)\<rparr>)
       \<and> formErrors (voucherForm s) ''voucherFile'' = Some ''Voucher document is required''
       \<and> db (snd (submitVoucher e s)) = db s
       \<and> storage (snd (submitVoucher e s)) = storage s"
  using assms by (simp add: submitVoucher_def formErrors_def Let_def)

text \<open>
  C4, at the example: receipt r1 selected, a description typed, no file picked.
\<close>

theorem submitVoucher_without_attachment_witness:
  "submitVoucher (ex_env 1700000000000 1700000000000)
      ((handleCreateVoucher ex_r1 ex_voucher_screen)\<lparr>voucherForm := \<lparr>description = ''May invoice'', voucherFile = None\<rparr>\<rparr>)
    = ([], (handleCreateVoucher ex_r1 ex_voucher_screen)
             \<lparr>voucherForm := \<lparr>description = ''May invoice'', voucherFile = None\<rparr>,
              voucherFormErrors := [''voucherFile'' \<mapsto> ''Voucher document is required'']\<rparr>)
   \<and> stored (snd (submitVoucher (ex_env 1700000000000 1700000000000)
        ((handleCreateVoucher ex_r1 ex_voucher_screen)\<lparr>voucherForm := \<lparr>description = ''May invoice'', voucherFile = None\<rparr>\<rparr>)))
        ''vouchers'' ''r1'' ''status'' = Some (Str ''approved'')"
proof -
  let ?s = "(handleCreateVoucher ex_r1 ex_voucher_screen)\<lparr>voucherForm := \<lparr>description = ''May invoice'', voucherFile = None\<rparr>\<rparr>"
  have sel: "selectedReceipt ?s = Some ex_r1" and vf: "voucherFile (voucherForm ?s) = None"
    by (simp_all add: handleCreateVoucher_def)
  have fe: "formErrors (voucherForm ?s) = [''voucherFile'' \<mapsto> ''Voucher document is required'']"
    by (simp add: formErrors_def trim_def is_space_def)
  have st: "stored ?s ''vouchers'' ''r1'' ''status'' = Some (Str ''approved'')"
    by (simp add: stored_def ex_defs)
  from submitVoucher_without_attachment [OF sel vf, of "ex_env 1700000000000 1700000000000"] fe st
  show ?thesis by (simp add: stored_def)
qed



section \<open>Two writers on one record\<close>

lemma same_ids:
  assumes "map fst xs = map fst ys"
  shows "fst ` set xs = fst ` set ys"
proof -
  from assms have "set (map fst xs) = set (map fst ys)" by simp
  then show ?thesis by simp
qed

lemma submitVoucher_alert_db:
  assumes "map fst (d ''vouchers'') = map fst (db s ''vouchers'')"
  shows "fst (submitVoucher e (s\<lparr>db := d\<rparr>)) = fst (submitVoucher e s)"
proof -
  have v: "voucherUpdate e (s\<lparr>db := d\<rparr>) url = voucherUpdate e s url" for url
    by (simp add: voucherUpdate_def)
  have n: "storageFileName e (s\<lparr>db := d\<rparr>) nm = storageFileName e s nm" for nm
    by (simp add: storageFileName_def)
  note u = same_ids [OF assms]
  show ?thesis
    by (auto simp: submitVoucher_def submitVoucher_try_def v n updateDoc_def map_of_eq_None_iff u
        split: option.splits prod.splits)
qed

lemma addComment_alert_db:
  assumes "map fst (d ''vouchers'') = map fst (db s ''vouchers'')"
  shows "fst (addComment e (s\<lparr>db := d\<rparr>)) = fst (addComment e s)"
proof -
  have c: "newComment e (s\<lparr>db := d\<rparr>) = newComment e s"
    by (simp add: newComment_def)
  note u = same_ids [OF assms]
  show ?thesis
    by (auto simp: addComment_def c updateDoc_def map_of_eq_None_iff u split: option.splits)
qed

lemma uploadPaidPDF_alert_db:
  assumes "map fst (d ''receipts'') = map fst (db p ''receipts'')"
  shows "fst (uploadPaidPDF e r v (p\<lparr>db := d\<rparr>)) = fst (uploadPaidPDF e r v p)"
proof -
  note u = same_ids [OF assms]
  show ?thesis
    by (auto simp: uploadPaidPDF_def Let_def updateDoc_def map_of_eq_None_iff u
        split: option.splits list.splits prod.splits)
qed

lemma addComment_merges:
  assumes "selectedVoucher s = Some sv" and "trim (comment s) \<noteq> []" and "snapshotComments sv = Some cs"
    and "map_of (db s ''vouchers'') (fst sv) = Some d0"
  shows "fst (addComment e s) = [Alert ''Success'' ''Comment added successfully'']"
    and "map_of (db (snd (addComment e s)) ''vouchers'') (fst sv)
           = Some (d0(''comments'' \<mapsto> Arr (cs @ [newComment e s])))"
proof -
  from assms(4) obtain d where
    u: "updateDoc (db s) ''vouchers'' (fst sv) [(''comments'', Arr (cs @ [newComment e s]))] = Some d"
    by (simp add: updateDoc_def)
  from assms(1-3) u have r: "addComment e s = ([Alert ''Success'' ''Comment added successfully''],
       fetchData (s\<lparr>db := d, comment := [], showCommentModal := False\<rparr>))"
    by (simp add: addComment_def)
  then show "fst (addComment e s) = [Alert ''Success'' ''Comment added successfully'']" by simp
  from map_of_updateDoc [OF u, of "fst sv"] assms(4)
  have "map_of (d ''vouchers'') (fst sv) = Some (set_fields d0 [(''comments'', Arr (cs @ [newComment e s]))])"
    by simp
  then show "map_of (db (snd (addComment e s)) ''vouchers'') (fst sv)
           = Some (d0(''comments'' \<mapsto> Arr (cs @ [newComment e s])))"
    by (simp add: r set_fields_def)
qed

lemma uploadPaidPDF_merges:
  assumes "assets r = Some (a # as)" and "\<not> canceled r"
    and "upload e (pickerCallback e r v (storage p)) (paidFileName (fst v) (dateNow2 e)) a = (st, Some url)"
    and "map_of (db p ''receipts'') (fst v) = Some d1"
  shows "fst (uploadPaidPDF e r v p) = [Alert ''Success'' ''Paid PDF uploaded and status updated!'']"
    and "map_of (db (snd (uploadPaidPDF e r v p)) ''receipts'') (fst v) = Some (set_fields d1 (paidUpdate e p url))"
proof -
  from assms(4) obtain d where
    u: "updateDoc (db p) ''receipts'' (fst v) (paidUpdate e p url) = Some d"
    by (simp add: updateDoc_def)
  from assms(1-3) u
  show "fst (uploadPaidPDF e r v p) = [Alert ''Success'' ''Paid PDF uploaded and status updated!'']"
    by (simp add: uploadPaidPDF_def Let_def)
  from assms(1-3) u have "db (snd (uploadPaidPDF e r v p)) = d"
    by (simp add: uploadPaidPDF_def Let_def)
  with map_of_updateDoc [OF u, of "fst v"] assms(4)
  show "map_of (db (snd (uploadPaidPDF e r v p)) ''receipts'') (fst v) = Some (set_fields d1 (paidUpdate e p url))"
    by simp
qed

text \<open>
  C3 (as the specification states it: of two attempts that start from the same version of
  a record exactly one succeeds, the other gets a ConflictError and overwrites nothing).
  Two publishers have receipt p1, at \<^verbatim>\<open>payment_initiated\<close>, on their lists. The first
  uploads the proof of payment; the second, whose list still shows p1, uploads half a
  second later. Both are told Success, and the second call has replaced \<^verbatim>\<open>publishedBy\<close>
  and \<^verbatim>\<open>paidPdfUrl\<close> of the first. In the same way two devices show the comments of
  voucher v1 and a comment is sent from each: both are told Success, and the comment of
  the first is gone from the stored list. (A handler reads nothing from the database
  before it writes and writes once, so two handlers running at the same time come to one
  of the two orders of their writes; this is one of them.)
\<close>

theorem racing_writers_both_succeed:
  "fst (uploadPaidPDF (ex_env 1700000000000 1700000000000) ex_picked ex_p1 (fetchVouchers ex_publisher_screen))
     = [Alert ''Success'' ''Paid PDF uploaded and status updated!'']
   \<and> stored (snd (uploadPaidPDF (ex_env 1700000000000 1700000000000) ex_picked ex_p1 (fetchVouchers ex_publisher_screen)))
        ''receipts'' ''p1'' ''status'' = Some (Str ''payment_done'')
   \<and> stored (snd (uploadPaidPDF (ex_env 1700000000000 1700000000000) ex_picked ex_p1 (fetchVouchers ex_publisher_screen)))
        ''receipts'' ''p1'' ''publishedBy'' = Some (Str ''Pat'')
   \<and> stored (snd (uploadPaidPDF (ex_env 1700000000000 1700000000000) ex_picked ex_p1 (fetchVouchers ex_publisher_screen)))
        ''receipts'' ''p1'' ''paidPdfUrl'' = Some (Str ''https://storage/paid_vouchers/p1-1700000000000.pdf'')
   \<and> fst (uploadPaidPDF (ex_env 1700000000500 1700000000900) ex_picked ex_p1
        (on_backend_of (snd (uploadPaidPDF (ex_env 1700000000000 1700000000000) ex_picked ex_p1 (fetchVouchers ex_publisher_screen)))
           ex_publisher_screen_B))
     = [Alert ''Success'' ''Paid PDF uploaded and status updated!'']
   \<and> stored (snd (uploadPaidPDF (ex_env 1700000000500 1700000000900) ex_picked ex_p1
        (on_backend_of (snd (uploadPaidPDF (ex_env 1700000000000 1700000000000) ex_picked ex_p1 (fetchVouchers ex_publisher_screen)))
           ex_publisher_screen_B)))
        ''receipts'' ''p1'' ''publishedBy'' = Some (Str ''Quinn'')
   \<and> stored (snd (uploadPaidPDF (ex_env 1700000000500 1700000000900) ex_picked ex_p1
        (on_backend_of (snd (uploadPaidPDF (ex_env 1700000000000 1700000000000) ex_picked ex_p1 (fetchVouchers ex_publisher_screen)))
           ex_publisher_screen_B)))
        ''receipts'' ''p1'' ''paidPdfUrl'' = Some (Str ''https://storage/paid_vouchers/p1-1700000000900.pdf'')
   \<and> fst (addComment (ex_env 1700000000000 1700000000000) (ex_comment_screen [ex_comment1] [ex_comment1] ''Paid on Friday''))
     = [Alert ''Success'' ''Comment added successfully'']
   \<and> stored (snd (addComment (ex_env 1700000000000 1700000000000) (ex_comment_screen [ex_comment1] [ex_comment1] ''Paid on Friday'')))
        ''vouchers'' ''v1'' ''comments''
     = Some (Arr [ex_comment1,
                  Obj [(''text'', Str ''Paid on Friday''), (''createdAt'', Str ''2023-11-14T22:13:20.000Z''),
                       (''createdBy'', Str ''u1''), (''createdByName'', Str ''Vera''), (''role'', Str ''voucher'')]])
   \<and> fst (addComment (ex_env 1700000000500 1700000000900)
        (on_backend_of (snd (addComment (ex_env 1700000000000 1700000000000) (ex_comment_screen [ex_comment1] [ex_comment1] ''Paid on Friday'')))
           (ex_comment_screen [ex_comment1] [ex_comment1] ''Please hold'')))
     = [Alert ''Success'' ''Comment added successfully'']
   \<and> stored (snd (addComment (ex_env 1700000000500 1700000000900)
        (on_backend_of (snd (addComment (ex_env 1700000000000 1700000000000) (ex_comment_screen [ex_comment1] [ex_comment1] ''Paid on Friday'')))
           (ex_comment_screen [ex_comment1] [ex_comment1] ''Please hold''))))
        ''vouchers'' ''v1'' ''comments''
     = Some (Arr [ex_comment1,
                  Obj [(''text'', Str ''Please hold''), (''createdAt'', Str ''2023-11-14T22:13:20.000Z''),
                       (''createdBy'', Str ''u1''), (''createdByName'', Str ''Vera''), (''role'', Str ''voucher'')]])"
proof -
  let ?eA = "ex_env 1700000000000 1700000000000" and ?eB = "ex_env 1700000000500 1700000000900"
  let ?A = "uploadPaidPDF ?eA ex_picked ex_p1 (fetchVouchers ex_publisher_screen)"
  let ?B = "uploadPaidPDF ?eB ex_picked ex_p1 (on_backend_of (snd ?A) ex_publisher_screen_B)"
  let ?C = "addComment ?eA (ex_comment_screen [ex_comment1] [ex_comment1] ''Paid on Friday'')"
  let ?D = "addComment ?eB (on_backend_of (snd ?C) (ex_comment_screen [ex_comment1] [ex_comment1] ''Please hold''))"
  have a: "fst ?A = [Alert ''Success'' ''Paid PDF uploaded and status updated!'']"
    "stored (snd ?A) ''receipts'' ''p1'' ''status'' = Some (Str ''payment_done'')"
    "stored (snd ?A) ''receipts'' ''p1'' ''publishedBy'' = Some (Str ''Pat'')"
    "stored (snd ?A) ''receipts'' ''p1'' ''paidPdfUrl'' = Some (Str ''https://storage/paid_vouchers/p1-1700000000000.pdf'')"
    by (simp_all add: ex_publisher_defs uploadPaidPDF_defs)
  have b: "fst ?B = [Alert ''Success'' ''Paid PDF uploaded and status updated!'']"
    "stored (snd ?B) ''receipts'' ''p1'' ''publishedBy'' = Some (Str ''Quinn'')"
    "stored (snd ?B) ''receipts'' ''p1'' ''paidPdfUrl'' = Some (Str ''https://storage/paid_vouchers/p1-1700000000900.pdf'')"
    by (simp_all add: ex_publisher_defs ex_publisher_screen_B_def on_backend_of_def uploadPaidPDF_defs)
  have c: "fst ?C = [Alert ''Success'' ''Comment added successfully'']"
    "stored (snd ?C) ''vouchers'' ''v1'' ''comments''
     = Some (Arr [ex_comment1,
                  Obj [(''text'', Str ''Paid on Friday''), (''createdAt'', Str ''2023-11-14T22:13:20.000Z''),
                       (''createdBy'', Str ''u1''), (''createdByName'', Str ''Vera''), (''role'', Str ''voucher'')]])"
    by (simp_all add: ex_comment_defs addComment_defs)
  have d: "fst ?D = [Alert ''Success'' ''Comment added successfully'']"
    "stored (snd ?D) ''vouchers'' ''v1'' ''comments''
     = Some (Arr [ex_comment1,
                  Obj [(''text'', Str ''Please hold''), (''createdAt'', Str ''2023-11-14T22:13:20.000Z''),
                       (''createdBy'', Str ''u1''), (''createdByName'', Str ''Vera''), (''role'', Str ''voucher'')]])"
    by (simp_all add: ex_comment_defs addComment_defs on_backend_of_def)
  from a b c d show ?thesis by simp
qed


text \<open>
  C3, amended: no handler compares anything with the stored record, and there is no
  ConflictError. The alert that \<^verbatim>\<open>submitVoucher\<close>, \<^verbatim>\<open>addComment\<close> or
  \<^verbatim>\<open>uploadPaidPDF\<close> shows is the same for any two databases that hold documents under
  the same ids, whatever the status and the other fields of the documents. An
  \<^verbatim>\<open>addComment\<close> with a comment that is not blank, and an \<^verbatim>\<open>uploadPaidPDF\<close> whose
  upload returns a URL, on a record that is stored, report Success and merge their fields
  into the document whatever it holds at that moment; so of two such attempts on one
  record both succeed and the later write stands.
\<close>

theorem writes_are_unconditional:
  assumes "map fst (d ''vouchers'') = map fst (db s ''vouchers'')"
    and "map fst (d' ''receipts'') = map fst (db p ''receipts'')"
  shows "fst (submitVoucher e (s\<lparr>db := d\<rparr>)) = fst (submitVoucher e s)
       \<and> fst (addComment e (s\<lparr>db := d\<rparr>)) = fst (addComment e s)
       \<and> fst (uploadPaidPDF e r v (p\<lparr>db := d'\<rparr>)) = fst (uploadPaidPDF e r v p)
       \<and> (selectedVoucher t = Some sv \<longrightarrow> trim (comment t) \<noteq> [] \<longrightarrow> snapshotComments sv = Some cs \<longrightarrow>
            map_of (db t ''vouchers'') (fst sv) = Some x \<longrightarrow>
            fst (addComment e t) = [Alert ''Success'' ''Comment added successfully'']
            \<and> map_of (db (snd (addComment e t)) ''vouchers'') (fst sv)
                = Some (x(''comments'' \<mapsto> Arr (cs @ [newComment e t]))))
       \<and> (assets r = Some (a # as) \<longrightarrow> \<not> canceled r \<longrightarrow>
            upload e (pickerCallback e r v (storage q)) (paidFileName (fst v) (dateNow2 e)) a = (st, Some url) \<longrightarrow>
            map_of (db q ''receipts'') (fst v) = Some y \<longrightarrow>
            fst (uploadPaidPDF e r v q) = [Alert ''Success'' ''Paid PDF uploaded and status updated!'']
            \<and> map_of (db (snd (uploadPaidPDF e r v q)) ''receipts'') (fst v)
                = Some (set_fields y (paidUpdate e q url)))"
proof (intro conjI impI)
  show "fst (submitVoucher e (s\<lparr>db := d\<rparr>)) = fst (submitVoucher e s)"
    using assms(1) by (rule submitVoucher_alert_db)
  show "fst (addComment e (s\<lparr>db := d\<rparr>)) = fst (addComment e s)"
    using assms(1) by (rule addComment_alert_db)
  show "fst (uploadPaidPDF e r v (p\<lparr>db := d'\<rparr>)) = fst (uploadPaidPDF e r v p)"
    using assms(2) by (rule uploadPaidPDF_alert_db)
next
  assume h: "selectedVoucher t = Some sv" "trim (comment t) \<noteq> []" "snapshotComments sv = Some cs"
    "map_of (db t ''vouchers'') (fst sv) = Some x"
  from h show "fst (addComment e t) = [Alert ''Success'' ''Comment added successfully'']"
    by (rule addComment_merges(1))
  from h show "map_of (db (snd (addComment e t)) ''vouchers'') (fst sv)
                = Some (x(''comments'' \<mapsto> Arr (cs @ [newComment e t])))"
    by (rule addComment_merges(2))
next
  assume h: "assets r = Some (a # as)" "\<not> canceled r"
    "upload e (pickerCallback e r v (storage q)) (paidFileName (fst v) (dateNow2 e)) a = (st, Some url)"
    "map_of (db q ''receipts'') (fst v) = Some y"
  from h show "fst (uploadPaidPDF e r v q) = [Alert ''Success'' ''Paid PDF uploaded and status updated!'']"
    by (rule uploadPaidPDF_merges(1))
  from h show "map_of (db (snd (uploadPaidPDF e r v q)) ''receipts'') (fst v)
                = Some (set_fields y (paidUpdate e q url))"
    by (rule uploadPaidPDF_merges(2))
qed

text \<open>
  C3, at the example: the alerts are the same with receipt r1 rejected in the meantime,
  with the first device's comment stored and with the first publisher's upload stored;
  the comment sent from a stale snapshot and the second publisher's upload succeed.
\<close>

theorem writes_are_unconditional_witness:
  "fst (submitVoucher (ex_env 1700000000500 1700000000900)
          (ex_picked_screen\<lparr>db := (db ex_picked_screen)(''vouchers'' := [ex_r1_rejected, ex_r2])\<rparr>))
     = fst (submitVoucher (ex_env 1700000000500 1700000000900) ex_picked_screen)
   \<and> fst (addComment (ex_env 1700000000500 1700000000900)
          ((ex_comment_screen [ex_comment1] [ex_comment1] ''Please hold'')
             \<lparr>db := db (snd (addComment (ex_env 1700000000000 1700000000000)
                               (ex_comment_screen [ex_comment1] [ex_comment1] ''Paid on Friday'')))\<rparr>))
     = fst (addComment (ex_env 1700000000500 1700000000900) (ex_comment_screen [ex_comment1] [ex_comment1] ''Please hold''))
   \<and> fst (uploadPaidPDF (ex_env 1700000000500 1700000000900) ex_picked ex_p1
          (ex_publisher_screen_B
             \<lparr>db := db (snd (uploadPaidPDF (ex_env 1700000000000 1700000000000) ex_picked ex_p1
                               (fetchVouchers ex_publisher_screen)))\<rparr>))
     = fst (uploadPaidPDF (ex_env 1700000000500 1700000000900) ex_picked ex_p1 ex_publisher_screen_B)
   \<and> fst (addComment (ex_env 1700000000500 1700000000900) (ex_comment_screen [ex_comment1] [ex_comment1, ex_comment2] ''Please hold''))
     = [Alert ''Success'' ''Comment added successfully'']
   \<and> map_of (db (snd (addComment (ex_env 1700000000500 1700000000900)
          (ex_comment_screen [ex_comment1] [ex_comment1, ex_comment2] ''Please hold''))) ''vouchers'') ''v1''
     = Some ((snd (ex_v1 [ex_comment1, ex_comment2]))(''comments'' \<mapsto>
          Arr [ex_comment1, newComment (ex_env 1700000000500 1700000000900)
                 (ex_comment_screen [ex_comment1] [ex_comment1, ex_comment2] ''Please hold'')]))
   \<and> fst (uploadPaidPDF (ex_env 1700000000500 1700000000900) ex_picked ex_p1 ex_publisher_screen_B)
     = [Alert ''Success'' ''Paid PDF uploaded and status updated!'']"
proof -
  let ?eA = "ex_env 1700000000000 1700000000000" and ?eB = "ex_env 1700000000500 1700000000900"
  let ?A = "uploadPaidPDF ?eA ex_picked ex_p1 (fetchVouchers ex_publisher_screen)"
  let ?C = "addComment ?eA (ex_comment_screen [ex_comment1] [ex_comment1] ''Paid on Friday'')"
  let ?cB = "ex_comment_screen [ex_comment1] [ex_comment1] ''Please hold''"
  let ?t = "ex_comment_screen [ex_comment1] [ex_comment1, ex_comment2] ''Please hold''"
  have i1: "map fst (((db ex_picked_screen)(''vouchers'' := [ex_r1_rejected, ex_r2])) ''vouchers'')
      = map fst (db ex_picked_screen ''vouchers'')"
    by (simp add: ex_picked_screen_def pickVoucherDocument_def onChangeDescription_def handleCreateVoucher_def
        Let_def ex_voucher_screen_def ex_r1_def ex_r2_def ex_r1_rejected_def)
  have i2: "map fst (db (snd ?C) ''vouchers'') = map fst (db ?cB ''vouchers'')"
    by (simp add: ex_comment_defs addComment_defs)
  have i3: "map fst (db (snd ?A) ''receipts'') = map fst (db ex_publisher_screen_B ''receipts'')"
    by (simp add: ex_publisher_defs ex_publisher_screen_B_def uploadPaidPDF_defs)
  have h1: "selectedVoucher ?t = Some (ex_v1 [ex_comment1])"
    and h2: "trim (comment ?t) \<noteq> []"
    and h3: "snapshotComments (ex_v1 [ex_comment1]) = Some [ex_comment1]"
    and h4: "map_of (db ?t ''vouchers'') (fst (ex_v1 [ex_comment1])) = Some (snd (ex_v1 [ex_comment1, ex_comment2]))"
    by (simp_all add: ex_comment_screen_def handleViewComments_def ex_v1_def trim_def is_space_def
        snapshotComments_def js_or_def)
  have g1: "assets ex_picked = Some [Some ''file:///paid.pdf'']" and g2: "\<not> canceled ex_picked"
    by (simp_all add: ex_picked_def)
  obtain st url where g3: "upload ?eB (pickerCallback ?eB ex_picked ex_p1 (storage ex_publisher_screen_B))
      (paidFileName (fst ex_p1) (dateNow2 ?eB)) (Some ''file:///paid.pdf'') = (st, Some url)"
    by (simp add: upload_def uploadBytes_def ex_env_def)
  obtain d1 where g4: "map_of (db ex_publisher_screen_B ''receipts'') (fst ex_p1) = Some d1"
    by (simp add: ex_publisher_screen_B_def ex_publisher_screen_def ex_p1_def)
  have i: "fst (ex_v1 [ex_comment1]) = ''v1''" by (simp add: ex_v1_def)
  note a = writes_are_unconditional [where s = ex_picked_screen
      and d = "(db ex_picked_screen)(''vouchers'' := [ex_r1_rejected, ex_r2])"
      and p = ex_publisher_screen_B and d' = "db (snd ?A)" and e = ?eB]
  note b = writes_are_unconditional [where s = ?cB and d = "db (snd ?C)"
      and p = ex_publisher_screen_B and d' = "db (snd ?A)" and e = ?eB and r = ex_picked and v = ex_p1
      and t = ?t and sv = "ex_v1 [ex_comment1]" and cs = "[ex_comment1]"
      and x = "snd (ex_v1 [ex_comment1, ex_comment2])" and a = "Some ''file:///paid.pdf''" and as = "[]"
      and q = ex_publisher_screen_B and st = st and url = url and y = d1]
  from a i1 i3 have 1: "fst (submitVoucher ?eB (ex_picked_screen\<lparr>db := (db ex_picked_screen)(''vouchers'' := [ex_r1_rejected, ex_r2])\<rparr>))
     = fst (submitVoucher ?eB ex_picked_screen)" by blast
  from b i2 i3 have 2: "fst (addComment ?eB (?cB\<lparr>db := db (snd ?C)\<rparr>)) = fst (addComment ?eB ?cB)"
    and 3: "fst (uploadPaidPDF ?eB ex_picked ex_p1 (ex_publisher_screen_B\<lparr>db := db (snd ?A)\<rparr>))
       = fst (uploadPaidPDF ?eB ex_picked ex_p1 ex_publisher_screen_B)"
    by blast+
  from b i2 i3 h1 h2 h3 h4 have 4: "fst (addComment ?eB ?t) = [Alert ''Success'' ''Comment added successfully'']"
    and 5: "map_of (db (snd (addComment ?eB ?t)) ''vouchers'') (fst (ex_v1 [ex_comment1]))
       = Some ((snd (ex_v1 [ex_comment1, ex_comment2]))(''comments'' \<mapsto> Arr ([ex_comment1] @ [newComment ?eB ?t])))"
    by blast+
  from b i2 i3 g1 g2 g3 g4 have 6: "fst (uploadPaidPDF ?eB ex_picked ex_p1 ex_publisher_screen_B)
     = [Alert ''Success'' ''Paid PDF uploaded and status updated!'']"
    by blast
  from 1 2 3 4 5 6 show ?thesis by (simp add: i)
qed

section \<open>Repeated calls\<close>







section \<open>The publisher's list\<close>

lemma mset_orderBy_desc: "mset (orderBy_desc f c) = mset (filter (\<lambda>(k, x). x f \<noteq> None) c)"
  by (simp add: orderBy_desc_def)

lemma set_orderBy_desc: "set (orderBy_desc f c) = {sn \<in> set c. snd sn f \<noteq> None}"
  by (auto simp: orderBy_desc_def)

lemma sorted_orderBy_desc: "sorted (rev (map (order_key f) (orderBy_desc f c)))"
  by (simp add: orderBy_desc_def rev_map [symmetric])

lemma orderBy_desc_descending:
  "sorted_wrt (\<lambda>a b. order_key f b \<le> order_key f a) (orderBy_desc f c)"
proof -
  have "sorted_wrt (\<lambda>a b. order_key f a \<le> order_key f b) (sort_key (order_key f) (filter (\<lambda>(k, x). x f \<noteq> None) c))"
    using sorted_sort_key [of "order_key f"] by (simp add: sorted_map)
  then show ?thesis
    by (simp add: orderBy_desc_def sorted_wrt_rev)
qed

lemma where_eq_idem: "where_eq f v (where_eq f v c) = where_eq f v c"
  by (simp add: where_eq_def)


lemma map_insort_key:
  "map f (insort_key (\<lambda>a. g (f a)) x xs) = insort_key g (f x) (map f xs)"
  by (induction xs) simp_all

lemma map_sort_key:
  "map f (sort_key (\<lambda>a. g (f a)) xs) = sort_key g (map f xs)"
  by (induction xs) (simp_all add: map_insort_key)

lemma fetchVouchers_reads_listed_fields:
  assumes "map listed_fields (db s ''receipts'') = map listed_fields (db s' ''receipts'')"
  shows "map fst (publisherVouchers (fetchVouchers s)) = map fst (publisherVouchers (fetchVouchers s'))"
proof -
  define key :: "string \<times> fval option \<times> fval option \<Rightarrow> (nat \<times> int \<times> string) \<times> string"
    where "key = (\<lambda>(i, st, t). case t of None \<Rightarrow> ((0, 0, []), i) | Some v \<Rightarrow> (fval_key v, i))"
  define keep :: "string \<times> fval option \<times> fval option \<Rightarrow> bool"
    where "keep = (\<lambda>(i, st, t). st = Some (Str ''payment_initiated'') \<and> t \<noteq> None)"
  have k: "order_key ''createdAt'' = (\<lambda>sn. key (listed_fields sn))"
    by (rule ext) (simp add: order_key_def key_def listed_fields_def)
  have ids: "map fst (publisherVouchers (fetchVouchers t))
      = map fst (rev (sort_key key (filter keep (map listed_fields (db t ''receipts'')))))" for t :: publisher_screen
  proof -
    have f: "filter (\<lambda>(k, x). x ''createdAt'' \<noteq> None) (where_eq ''status'' (Str ''payment_initiated'') (db t ''receipts''))
        = filter (\<lambda>sn. keep (listed_fields sn)) (db t ''receipts'')"
      by (auto simp: where_eq_def keep_def listed_fields_def intro: filter_cong)
    have "publisherVouchers (fetchVouchers t)
        = rev (sort_key (order_key ''createdAt'')
            (filter (\<lambda>(k, x). x ''createdAt'' \<noteq> None) (where_eq ''status'' (Str ''payment_initiated'') (db t ''receipts''))))"
      by (simp add: fetchVouchers_def orderBy_desc_def)
    also have "\<dots> = rev (sort_key (\<lambda>sn. key (listed_fields sn)) (filter (\<lambda>sn. keep (listed_fields sn)) (db t ''receipts'')))"
      by (simp only: f k)
    finally have "map listed_fields (publisherVouchers (fetchVouchers t))
        = rev (map listed_fields (sort_key (\<lambda>sn. key (listed_fields sn)) (filter (\<lambda>sn. keep (listed_fields sn)) (db t ''receipts''))))"
      by (simp only: rev_map)
    also have "\<dots> = rev (sort_key key (map listed_fields (filter (\<lambda>sn. keep (listed_fields sn)) (db t ''receipts''))))"
      by (simp only: map_sort_key)
    also have "map listed_fields (filter (\<lambda>sn. keep (listed_fields sn)) (db t ''receipts''))
        = filter keep (map listed_fields (db t ''receipts''))"
      by (simp add: filter_map comp_def)
    finally have l: "map listed_fields (publisherVouchers (fetchVouchers t))
        = rev (sort_key key (filter keep (map listed_fields (db t ''receipts''))))" .
    have "map fst (publisherVouchers (fetchVouchers t)) = map fst (map listed_fields (publisherVouchers (fetchVouchers t)))"
      by (simp add: listed_fields_def comp_def)
    with l show ?thesis by simp
  qed
  show ?thesis
    by (simp only: ids assms)
qed

text \<open>
  C5 (as the specification states it: the publisher's list holds exactly the records with
  status \<^verbatim>\<open>payment_initiated\<close>, newest status change first). \<^verbatim>\<open>fetchVouchers\<close> orders
  by \<^verbatim>\<open>createdAt\<close>, the time of submission (the screen shows it as "Submitted"), and reads
  no other time stamp. Receipt p1 was submitted before p2 and its status was changed after
  that of p2 (\<^verbatim>\<open>processedAt\<close>, the stamp a status change writes): the list shows p2
  first.
\<close>

theorem fetchVouchers_orders_by_createdAt_only:
  "map fst (publisherVouchers (fetchVouchers ex_publisher_screen)) = [''p2'', ''p1'']
   \<and> stored ex_publisher_screen ''receipts'' ''p1'' ''status'' = Some (Str ''payment_initiated'')
   \<and> stored ex_publisher_screen ''receipts'' ''p2'' ''status'' = Some (Str ''payment_initiated'')
   \<and> stored ex_publisher_screen ''receipts'' ''p1'' ''createdAt'' = Some (Str ''2023-10-01T08:00:00.000Z'')
   \<and> stored ex_publisher_screen ''receipts'' ''p2'' ''createdAt'' = Some (Str ''2023-10-05T08:00:00.000Z'')
   \<and> stored ex_publisher_screen ''receipts'' ''p1'' ''processedAt'' = Some (Str ''2023-10-20T08:00:00.000Z'')
   \<and> stored ex_publisher_screen ''receipts'' ''p2'' ''processedAt'' = Some (Str ''2023-10-10T08:00:00.000Z'')
   \<and> ''2023-10-10T08:00:00.000Z'' < ''2023-10-20T08:00:00.000Z''"
  by (simp add: fetchVouchers_def orderBy_desc_def where_eq_def order_key_def stored_def ex_publisher_defs)

text \<open>
  C5, amended: \<^verbatim>\<open>fetchVouchers\<close> puts into the screen's list exactly the documents of
  the collection \<^verbatim>\<open>receipts\<close> whose status is \<^verbatim>\<open>payment_initiated\<close> and that have a field
  \<^verbatim>\<open>createdAt\<close>, each as often as it is stored, ordered by \<^verbatim>\<open>createdAt\<close> descending
  (equal values by document id, descending); the order of the list depends on nothing but
  the ids, the statuses and the \<^verbatim>\<open>createdAt\<close> of the stored receipts, so on no stamp of a
  status change; the call changes neither the database nor the bucket nor the signed-in
  user, and a second call returns the same state.
\<close>

theorem fetchVouchers_by_createdAt:
  "mset (publisherVouchers (fetchVouchers s))
     = mset (filter (\<lambda>(i, d). d ''status'' = Some (Str ''payment_initiated'') \<and> d ''createdAt'' \<noteq> None)
               (db s ''receipts''))
   \<and> sorted_wrt (\<lambda>a b. order_key ''createdAt'' b \<le> order_key ''createdAt'' a) (publisherVouchers (fetchVouchers s))
   \<and> (map listed_fields (db s ''receipts'') = map listed_fields (db s' ''receipts'') \<longrightarrow>
        map fst (publisherVouchers (fetchVouchers s)) = map fst (publisherVouchers (fetchVouchers s')))
   \<and> db (fetchVouchers s) = db s
   \<and> storage (fetchVouchers s) = storage s
   \<and> authUser (fetchVouchers s) = authUser s
   \<and> userData (fetchVouchers s) = userData s
   \<and> fetchVouchers (fetchVouchers s) = fetchVouchers s"
proof -
  have "filter (\<lambda>(k, x). x ''createdAt'' \<noteq> None) (where_eq ''status'' (Str ''payment_initiated'') (db s ''receipts''))
      = filter (\<lambda>(i, d). d ''status'' = Some (Str ''payment_initiated'') \<and> d ''createdAt'' \<noteq> None) (db s ''receipts'')"
    by (auto simp: where_eq_def intro: filter_cong)
  then have 1: "mset (publisherVouchers (fetchVouchers s))
     = mset (filter (\<lambda>(i, d). d ''status'' = Some (Str ''payment_initiated'') \<and> d ''createdAt'' \<noteq> None)
               (db s ''receipts''))"
    by (simp add: fetchVouchers_def mset_orderBy_desc)
  have 2: "sorted_wrt (\<lambda>a b. order_key ''createdAt'' b \<le> order_key ''createdAt'' a) (publisherVouchers (fetchVouchers s))"
    by (simp add: fetchVouchers_def orderBy_desc_descending)
  have 3: "fetchVouchers (fetchVouchers s) = fetchVouchers s"
    by (simp add: fetchVouchers_def)
  have 4: "map fst (publisherVouchers (fetchVouchers s)) = map fst (publisherVouchers (fetchVouchers s'))"
    if "map listed_fields (db s ''receipts'') = map listed_fields (db s' ''receipts'')"
    using that by (rule fetchVouchers_reads_listed_fields)
  have 5: "db (fetchVouchers s) = db s" "storage (fetchVouchers s) = storage s"
    "authUser (fetchVouchers s) = authUser s" "userData (fetchVouchers s) = userData s"
    by (simp_all add: fetchVouchers_def)
  from 1 2 3 4 5 show ?thesis by blast
qed

text \<open>
  C5, at the example: with the stamps of processing the other way round the list is the
  same, p2 (submitted last) first.
\<close>

theorem fetchVouchers_witness:
  "map fst (publisherVouchers (fetchVouchers ex_publisher_screen)) = [''p2'', ''p1'']
   \<and> map fst (publisherVouchers (fetchVouchers ex_publisher_screen')) = [''p2'', ''p1'']
   \<and> stored ex_publisher_screen' ''receipts'' ''p1'' ''processedAt'' = Some (Str ''2023-10-08T08:00:00.000Z'')
   \<and> stored ex_publisher_screen' ''receipts'' ''p2'' ''processedAt'' = Some (Str ''2023-10-25T08:00:00.000Z'')"
proof -
  have l: "map listed_fields (db ex_publisher_screen ''receipts'') = map listed_fields (db ex_publisher_screen' ''receipts'')"
    by (simp add: listed_fields_def ex_publisher_screen'_def ex_publisher_defs)
  have a: "map fst (publisherVouchers (fetchVouchers ex_publisher_screen)) = [''p2'', ''p1'']"
    by (simp add: fetchVouchers_def orderBy_desc_def where_eq_def order_key_def ex_publisher_defs)
  have b: "stored ex_publisher_screen' ''receipts'' ''p1'' ''processedAt'' = Some (Str ''2023-10-08T08:00:00.000Z'')"
    "stored ex_publisher_screen' ''receipts'' ''p2'' ''processedAt'' = Some (Str ''2023-10-25T08:00:00.000Z'')"
    by (simp_all add: stored_def ex_publisher_screen'_def ex_publisher_defs)
  from fetchVouchers_by_createdAt [of ex_publisher_screen ex_publisher_screen'] l
  have "map fst (publisherVouchers (fetchVouchers ex_publisher_screen))
      = map fst (publisherVouchers (fetchVouchers ex_publisher_screen'))"
    by blast
  with a b show ?thesis by simp
qed


section \<open>Comments\<close>

text \<open>
  C7 (as the specification states it: addComment appends one entry, alters neither status
  nor attachments, and keeps every earlier entry). Two cases break it. A comment of
  blanks only is answered with the alert "Empty Comment" and nothing is appended. And the
  new list is built from the comments of the snapshot on the screen, not from the stored
  ones: when the database has got a second comment since the snapshot was fetched, the
  write replaces the stored list by the snapshot's list plus the new comment, and the
  second comment is gone.
\<close>

theorem addComment_blank_or_stale:
  "fst (addComment (ex_env 0 0) (ex_comment_screen [ex_comment1] [ex_comment1] ''   ''))
     = [Alert ''Empty Comment'' ''Please enter a comment'']
   \<and> stored (snd (addComment (ex_env 0 0) (ex_comment_screen [ex_comment1] [ex_comment1] ''   '')))
       ''vouchers'' ''v1'' ''comments'' = Some (Arr [ex_comment1])
   \<and> stored (ex_comment_screen [ex_comment1] [ex_comment1, ex_comment2] ''Paid on Friday'')
       ''vouchers'' ''v1'' ''comments'' = Some (Arr [ex_comment1, ex_comment2])
   \<and> fst (addComment (ex_env 0 0) (ex_comment_screen [ex_comment1] [ex_comment1, ex_comment2] ''Paid on Friday''))
     = [Alert ''Success'' ''Comment added successfully'']
   \<and> stored (snd (addComment (ex_env 0 0) (ex_comment_screen [ex_comment1] [ex_comment1, ex_comment2] ''Paid on Friday'')))
       ''vouchers'' ''v1'' ''comments''
     = Some (Arr [ex_comment1,
                  Obj [(''text'', Str ''Paid on Friday''), (''createdAt'', Str ''2023-11-14T22:13:20.000Z''),
                       (''createdBy'', Str ''u1''), (''createdByName'', Str ''Vera''), (''role'', Str ''voucher'')]])"
  by (simp add: ex_comment_defs addComment_defs)

lemma addComment_cases:
  assumes "addComment e s = (al, s')"
  shows "(db s' = db s \<and> storage s' = storage s)
       \<or> (\<exists>sv cs d. selectedVoucher s = Some sv \<and> trim (comment s) \<noteq> [] \<and> snapshotComments sv = Some cs \<and>
            updateDoc (db s) ''vouchers'' (fst sv) [(''comments'', Arr (cs @ [newComment e s]))] = Some d \<and>
            al = [Alert ''Success'' ''Comment added successfully''] \<and>
            s' = fetchData (s\<lparr>db := d, comment := [], showCommentModal := False\<rparr>))"
  using assms
  by (auto simp: addComment_def split: option.splits if_splits)

lemma addComment_frame:
  assumes "addComment e s = (al, s')"
  shows "(\<forall>i k. k \<noteq> ''comments'' \<longrightarrow> stored s' ''vouchers'' i k = stored s ''vouchers'' i k)
       \<and> (\<forall>c. c \<noteq> ''vouchers'' \<longrightarrow> db s' c = db s c)
       \<and> storage s' = storage s"
  using addComment_cases [OF assms]
proof (elim disjE exE conjE)
  assume "db s' = db s" "storage s' = storage s"
  then show ?thesis by (simp add: stored_def)
next
  fix sv cs d
  assume u: "updateDoc (db s) ''vouchers'' (fst sv) [(''comments'', Arr (cs @ [newComment e s]))] = Some d"
    and s': "s' = fetchData (s\<lparr>db := d, comment := [], showCommentModal := False\<rparr>)"
  have d: "db s' = d" and st: "storage s' = storage s" using s' by simp_all
  have "stored s' ''vouchers'' i k = stored s ''vouchers'' i k" if "k \<noteq> ''comments''" for i k
    using that map_of_updateDoc [OF u, of i]
    by (auto simp: stored_def d set_fields_apply split: option.splits)
  moreover have "db s' c = db s c" if "c \<noteq> ''vouchers''" for c
    using updateDoc_other_collection [OF u that] d by simp
  ultimately show ?thesis using st by blast
qed

text \<open>
  C7, amended: \<^verbatim>\<open>addComment\<close> changes no field of any voucher other than
  \<^verbatim>\<open>comments\<close> (so neither the status nor \<^verbatim>\<open>receiptUrl\<close>, \<^verbatim>\<open>voucherUrl\<close> or
  \<^verbatim>\<open>paidPdfUrl\<close>), no other collection and nothing in the bucket, whatever its input; it
  writes nothing when the comment is blank; and when the comment is not blank, the
  selected voucher is stored and the snapshot on the screen holds the stored comments,
  it reports success and the stored comments afterwards are the earlier ones, unchanged
  and in order, followed by the one new entry.
\<close>

theorem addComment_appends_and_frames:
  "(\<forall>i k. k \<noteq> ''comments'' \<longrightarrow>
        stored (snd (addComment e s)) ''vouchers'' i k = stored s ''vouchers'' i k)
   \<and> (\<forall>c. c \<noteq> ''vouchers'' \<longrightarrow> db (snd (addComment e s)) c = db s c)
   \<and> storage (snd (addComment e s)) = storage s
   \<and> (trim (comment s) = [] \<longrightarrow> db (snd (addComment e s)) = db s)
   \<and> (selectedVoucher s = Some sv \<longrightarrow> trim (comment s) \<noteq> [] \<longrightarrow>
        map_of (db s ''vouchers'') (fst sv) = Some d0 \<longrightarrow>
        snd sv ''comments'' = d0 ''comments'' \<longrightarrow>
        (d0 ''comments'' = Some (Arr cs) \<or> d0 ''comments'' = None \<and> cs = []) \<longrightarrow>
        fst (addComment e s) = [Alert ''Success'' ''Comment added successfully'']
        \<and> map_of (db (snd (addComment e s)) ''vouchers'') (fst sv)
            = Some (d0(''comments'' \<mapsto> Arr (cs @ [newComment e s]))))"
proof (intro conjI)
  have p: "addComment e s = (fst (addComment e s), snd (addComment e s))" by simp
  from addComment_frame [OF p]
  show "\<forall>i k. k \<noteq> ''comments'' \<longrightarrow> stored (snd (addComment e s)) ''vouchers'' i k = stored s ''vouchers'' i k"
    and "\<forall>c. c \<noteq> ''vouchers'' \<longrightarrow> db (snd (addComment e s)) c = db s c"
    and "storage (snd (addComment e s)) = storage s"
    by blast+
  show "trim (comment s) = [] \<longrightarrow> db (snd (addComment e s)) = db s"
    by (auto simp: addComment_def split: option.splits)
  show "selectedVoucher s = Some sv \<longrightarrow> trim (comment s) \<noteq> [] \<longrightarrow>
        map_of (db s ''vouchers'') (fst sv) = Some d0 \<longrightarrow>
        snd sv ''comments'' = d0 ''comments'' \<longrightarrow>
        (d0 ''comments'' = Some (Arr cs) \<or> d0 ''comments'' = None \<and> cs = []) \<longrightarrow>
        fst (addComment e s) = [Alert ''Success'' ''Comment added successfully'']
        \<and> map_of (db (snd (addComment e s)) ''vouchers'') (fst sv)
            = Some (d0(''comments'' \<mapsto> Arr (cs @ [newComment e s])))"
  proof (intro impI)
    assume sel: "selectedVoucher s = Some sv" and nb: "trim (comment s) \<noteq> []"
      and ex: "map_of (db s ''vouchers'') (fst sv) = Some d0"
      and cur: "snd sv ''comments'' = d0 ''comments''"
      and arr: "d0 ''comments'' = Some (Arr cs) \<or> d0 ''comments'' = None \<and> cs = []"
    from cur arr have sc: "snapshotComments sv = Some cs"
      by (auto simp: snapshotComments_def js_or_def)
    from ex obtain d where
      u: "updateDoc (db s) ''vouchers'' (fst sv) [(''comments'', Arr (cs @ [newComment e s]))] = Some d"
      by (simp add: updateDoc_def)
    from sel nb sc u have r: "addComment e s = ([Alert ''Success'' ''Comment added successfully''],
         fetchData (s\<lparr>db := d, comment := [], showCommentModal := False\<rparr>))"
      by (simp add: addComment_def)
    from map_of_updateDoc [OF u, of "fst sv"] ex
    have "map_of (d ''vouchers'') (fst sv) = Some (set_fields d0 [(''comments'', Arr (cs @ [newComment e s]))])"
      by simp
    moreover have "set_fields d0 [(''comments'', Arr (cs @ [newComment e s]))] = d0(''comments'' \<mapsto> Arr (cs @ [newComment e s]))"
      by (simp add: set_fields_def)
    ultimately show "fst (addComment e s) = [Alert ''Success'' ''Comment added successfully'']
        \<and> map_of (db (snd (addComment e s)) ''vouchers'') (fst sv)
            = Some (d0(''comments'' \<mapsto> Arr (cs @ [newComment e s])))"
      by (simp add: r)
  qed
qed

text \<open>
  C7, at the example: the snapshot on the screen holds the one stored comment.
\<close>

theorem addComment_witness:
  "fst (addComment (ex_env 0 0) (ex_comment_screen [ex_comment1] [ex_comment1] ''Paid on Friday''))
     = [Alert ''Success'' ''Comment added successfully'']
   \<and> stored (snd (addComment (ex_env 0 0) (ex_comment_screen [ex_comment1] [ex_comment1] ''Paid on Friday'')))
       ''vouchers'' ''v1'' ''comments''
     = Some (Arr [ex_comment1, newComment (ex_env 0 0) (ex_comment_screen [ex_comment1] [ex_comment1] ''Paid on Friday'')])
   \<and> stored (snd (addComment (ex_env 0 0) (ex_comment_screen [ex_comment1] [ex_comment1] ''Paid on Friday'')))
       ''vouchers'' ''v1'' ''status'' = Some (Str ''voucher_created'')
   \<and> stored (snd (addComment (ex_env 0 0) (ex_comment_screen [ex_comment1] [ex_comment1] ''Paid on Friday'')))
       ''vouchers'' ''v1'' ''voucherUrl'' = Some (Str ''https://storage/vouchers/v1.pdf'')"
proof -
  let ?e = "ex_env 0 0"
  let ?s = "ex_comment_screen [ex_comment1] [ex_comment1] ''Paid on Friday''"
  have h1: "selectedVoucher ?s = Some (ex_v1 [ex_comment1])"
    and h2: "trim (comment ?s) \<noteq> []"
    and h3: "map_of (db ?s ''vouchers'') (fst (ex_v1 [ex_comment1])) = Some (snd (ex_v1 [ex_comment1]))"
    by (simp_all add: ex_comment_screen_def handleViewComments_def ex_v1_def trim_def is_space_def)
  have h4: "snd (ex_v1 [ex_comment1]) ''comments'' = snd (ex_v1 [ex_comment1]) ''comments''" by simp
  have h5: "snd (ex_v1 [ex_comment1]) ''comments'' = Some (Arr [ex_comment1])
            \<or> snd (ex_v1 [ex_comment1]) ''comments'' = None \<and> [ex_comment1] = []"
    by (simp add: ex_v1_def)
  have b1: "stored ?s ''vouchers'' ''v1'' ''status'' = Some (Str ''voucher_created'')"
    and b2: "stored ?s ''vouchers'' ''v1'' ''voucherUrl'' = Some (Str ''https://storage/vouchers/v1.pdf'')"
    by (simp_all add: stored_def ex_comment_screen_def handleViewComments_def ex_v1_def)
  have i: "fst (ex_v1 [ex_comment1]) = ''v1''" by (simp add: ex_v1_def)
  note t = addComment_appends_and_frames [of ?e ?s "ex_v1 [ex_comment1]" "snd (ex_v1 [ex_comment1])" "[ex_comment1]"]
  from t have frame: "\<forall>i k. k \<noteq> ''comments'' \<longrightarrow> stored (snd (addComment ?e ?s)) ''vouchers'' i k = stored ?s ''vouchers'' i k"
    by blast
  from t h1 h2 h3 h4 h5
  have app: "fst (addComment ?e ?s) = [Alert ''Success'' ''Comment added successfully'']
        \<and> map_of (db (snd (addComment ?e ?s)) ''vouchers'') (fst (ex_v1 [ex_comment1]))
            = Some ((snd (ex_v1 [ex_comment1]))(''comments'' \<mapsto> Arr ([ex_comment1] @ [newComment ?e ?s])))"
    by blast
  from frame have "stored (snd (addComment ?e ?s)) ''vouchers'' ''v1'' ''status'' = stored ?s ''vouchers'' ''v1'' ''status''"
    and "stored (snd (addComment ?e ?s)) ''vouchers'' ''v1'' ''voucherUrl'' = stored ?s ''vouchers'' ''v1'' ''voucherUrl''"
    by simp_all
  with app b1 b2 show ?thesis by (simp add: stored_def i)
qed

section \<open>The gate at sign-in\<close>

lemmas signIn_defs = signIn_def signInFailed_def fetchUserData_def signInWithEmailAndPassword_def
  AuthLoadingScreen_def logout_def onAuthStateChanged_def routeFor_def

lemma signIn_Inr:
  assumes "signIn e em pw s = (Inr ud, s')"
  shows "\<not> truthy (ud ''pending'') \<and> truthy (ud ''designation'') \<and>
         (\<exists>u. signInWithEmailAndPassword (accounts s) em pw = Some u \<and>
              map_of (db s ''users'') (uid u) = Some ud \<and> authUser s' = Some u \<and> userData s' = Some ud)"
  using assms
  by (auto simp: signIn_def signInFailed_def fetchUserData_def Let_def split: option.splits if_splits prod.splits)

lemma signIn_gated:
  assumes "signInWithEmailAndPassword (accounts s) em pw = Some u"
    and "map_of (db s ''users'') (uid u) = Some ud"
    and "truthy (ud ''pending'') \<or> \<not> truthy (ud ''designation'')"
  shows "fst (signIn e em pw s) = Inl (JsError ''Your account is pending approval. Please wait for a SuperUser to assign you a role.'')"
    and "authUser (snd (signIn e em pw s)) = None"
    and "error (snd (signIn e em pw s)) = Some ''Your account is pending approval. Please wait for a SuperUser to assign you a role.''"
  using assms
  by (auto simp: signIn_def signInFailed_def fetchUserData_def Let_def split: option.splits if_splits prod.splits)

lemma routeFor_not_Login: "routeFor v \<noteq> ''Login''" "routeFor v \<noteq> ''Splash''"
  by (simp_all add: routeFor_def)

lemma AuthLoadingScreen_routes:
  assumes "AuthLoadingScreen s = (al, Some r, s')" "r \<noteq> ''Login''" "r \<noteq> ''Splash''"
  shows "\<exists>ud. userData s = Some ud \<and> \<not> truthy (ud ''pending'') \<and> truthy (ud ''designation'') \<and>
           r = routeFor (ud ''designation'') \<and> s' = s \<and> al = []"
  using assms
  by (auto simp: AuthLoadingScreen_def split: option.splits if_splits)

lemma signIn_approved:
  assumes "signIn e em pw s = (Inr ud, s')" "profiles_consistent (db s)"
  shows "ud ''approved'' = Some (Bool True)"
proof -
  from signIn_Inr [OF assms(1)] have np: "\<not> truthy (ud ''pending'')"
    and ex: "\<exists>u::firebase_user. map_of (db s ''users'') (uid u) = Some ud"
    by blast+
  from ex obtain u :: firebase_user where m: "map_of (db s ''users'') (uid u) = Some ud" ..
  from m have "(uid u, ud) \<in> set (db s ''users'')" by (rule map_of_SomeD)
  with assms(2) have "approval_consistent ud"
    by (auto simp: profiles_consistent_def list_all_iff)
  with np show ?thesis by (auto simp: approval_consistent_def)
qed

text \<open>
  C8: \<^verbatim>\<open>signIn\<close> returns the profile only when its \<^verbatim>\<open>pending\<close> is not set and it
  has a \<^verbatim>\<open>designation\<close> (what the source calls an approved user with a role; and with
  the profiles as \<^verbatim>\<open>signUp\<close> and \<^verbatim>\<open>updateUser\<close> write them, its \<^verbatim>\<open>approved\<close> is true); for a
  user whose credentials are right and whose profile is pending or has no designation it
  signs out again, throws the "pending approval" error and records its message. The
  routing screen applies the same test: with the profile loaded it shows the alert, logs
  the user out and goes to Login, and it goes to a role's screen only for a profile that
  is not pending and has a designation.
\<close>

theorem pending_users_are_signed_out:
  "(signIn e em pw s = (Inr ud, s') \<longrightarrow>
      \<not> truthy (ud ''pending'') \<and> truthy (ud ''designation'') \<and>
      (\<exists>u. signInWithEmailAndPassword (accounts s) em pw = Some u \<and>
           map_of (db s ''users'') (uid u) = Some ud \<and> authUser s' = Some u))
   \<and> (signInWithEmailAndPassword (accounts s) em pw = Some u \<longrightarrow>
        map_of (db s ''users'') (uid u) = Some pd \<longrightarrow>
        truthy (pd ''pending'') \<or> \<not> truthy (pd ''designation'') \<longrightarrow>
        fst (signIn e em pw s) = Inl (JsError ''Your account is pending approval. Please wait for a SuperUser to assign you a role.'')
        \<and> authUser (snd (signIn e em pw s)) = None
        \<and> error (snd (signIn e em pw s)) = Some ''Your account is pending approval. Please wait for a SuperUser to assign you a role.'')
   \<and> (\<not> isLoading c \<longrightarrow> currentUser c = Some cu \<longrightarrow> userData c = Some cd \<longrightarrow>
        truthy (cd ''pending'') \<or> \<not> truthy (cd ''designation'') \<longrightarrow>
        AuthLoadingScreen c =
          ([Alert ''Account Pending Approval''
              ''Your account has not been approved yet. Please wait for a SuperUser to assign you a role.''],
           Some ''Login'', logout c)
        \<and> authUser (logout c) = None)
   \<and> (AuthLoadingScreen c = (al, Some r, c') \<longrightarrow> r \<noteq> ''Login'' \<longrightarrow> r \<noteq> ''Splash'' \<longrightarrow>
        (\<exists>rd. userData c = Some rd \<and> \<not> truthy (rd ''pending'') \<and> truthy (rd ''designation'') \<and>
              r = routeFor (rd ''designation'')))
   \<and> (signIn e em pw s = (Inr ud, s') \<longrightarrow> profiles_consistent (db s) \<longrightarrow>
        ud ''approved'' = Some (Bool True))"
proof (intro conjI impI)
  assume "signIn e em pw s = (Inr ud, s')"
  from signIn_Inr [OF this]
  show "\<not> truthy (ud ''pending'')" and "truthy (ud ''designation'')"
    and "\<exists>u. signInWithEmailAndPassword (accounts s) em pw = Some u \<and>
           map_of (db s ''users'') (uid u) = Some ud \<and> authUser s' = Some u"
    by blast+
next
  assume h: "signInWithEmailAndPassword (accounts s) em pw = Some u"
    "map_of (db s ''users'') (uid u) = Some pd"
    "truthy (pd ''pending'') \<or> \<not> truthy (pd ''designation'')"
  from signIn_gated [OF h]
  show "fst (signIn e em pw s) = Inl (JsError ''Your account is pending approval. Please wait for a SuperUser to assign you a role.'')"
    and "authUser (snd (signIn e em pw s)) = None"
    and "error (snd (signIn e em pw s)) = Some ''Your account is pending approval. Please wait for a SuperUser to assign you a role.''"
    by blast+
next
  assume h: "\<not> isLoading c" "currentUser c = Some cu" "userData c = Some cd"
    "truthy (cd ''pending'') \<or> \<not> truthy (cd ''designation'')"
  then show "AuthLoadingScreen c =
          ([Alert ''Account Pending Approval''
              ''Your account has not been approved yet. Please wait for a SuperUser to assign you a role.''],
           Some ''Login'', logout c)"
    by (auto simp: AuthLoadingScreen_def)
  show "authUser (logout c) = None" by (simp add: logout_def)
next
  assume "AuthLoadingScreen c = (al, Some r, c')" "r \<noteq> ''Login''" "r \<noteq> ''Splash''"
  from AuthLoadingScreen_routes [OF this]
  show "\<exists>rd. userData c = Some rd \<and> \<not> truthy (rd ''pending'') \<and> truthy (rd ''designation'') \<and>
              r = routeFor (rd ''designation'')"
    by blast
next
  assume "signIn e em pw s = (Inr ud, s')" and "profiles_consistent (db s)"
  then show "ud ''approved'' = Some (Bool True)" by (rule signIn_approved)
qed

text \<open>
  C8, at the example: Pia is pending and is turned away at both places, Fay has a role
  and gets through.
\<close>

theorem pending_users_witness:
  "fst (signIn (ex_env 0 0) ''pia@zoom.example'' ''pw-pia'' ex_auth)
     = Inl (JsError ''Your account is pending approval. Please wait for a SuperUser to assign you a role.'')
   \<and> authUser (snd (signIn (ex_env 0 0) ''pia@zoom.example'' ''pw-pia'' ex_auth)) = None
   \<and> fst (signIn (ex_env 0 0) ''fay@zoom.example'' ''pw-fay'' ex_auth) = Inr ex_fay
   \<and> \<not> truthy (ex_fay ''pending'') \<and> truthy (ex_fay ''designation'')
   \<and> profiles_consistent (db ex_auth) \<and> ex_fay ''approved'' = Some (Bool True)
   \<and> fst (snd (AuthLoadingScreen (onAuthStateChanged (ex_auth\<lparr>authUser := Some \<lparr>uid = ''u3'', email = Some ''pia@zoom.example''\<rparr>\<rparr>))))
       = Some ''Login''
   \<and> fst (snd (AuthLoadingScreen (onAuthStateChanged (ex_auth\<lparr>authUser := Some \<lparr>uid = ''u4'', email = Some ''fay@zoom.example''\<rparr>\<rparr>))))
       = Some ''Finance''"
proof -
  let ?e = "ex_env 0 0"
  let ?pia = "\<lparr>uid = ''u3'', email = Some ''pia@zoom.example''\<rparr>"
  let ?fay = "\<lparr>uid = ''u4'', email = Some ''fay@zoom.example''\<rparr>"
  let ?c = "onAuthStateChanged (ex_auth\<lparr>authUser := Some ?pia\<rparr>)"
  let ?c' = "onAuthStateChanged (ex_auth\<lparr>authUser := Some ?fay\<rparr>)"
  have f: "fst (signIn ?e ''fay@zoom.example'' ''pw-fay'' ex_auth) = Inr ex_fay"
    by (simp add: ex_auth_defs signIn_defs)
  then have f': "signIn ?e ''fay@zoom.example'' ''pw-fay'' ex_auth = (Inr ex_fay, snd (signIn ?e ''fay@zoom.example'' ''pw-fay'' ex_auth))"
    by (metis prod.collapse)
  have p1: "signInWithEmailAndPassword (accounts ex_auth) ''pia@zoom.example'' ''pw-pia'' = Some ?pia"
    by (simp add: ex_auth_def signInWithEmailAndPassword_def)
  have p2: "map_of (db ex_auth ''users'') (uid ?pia) = Some ex_pia"
    by (simp add: ex_auth_def)
  have p3: "truthy (ex_pia ''pending'') \<or> \<not> truthy (ex_pia ''designation'')"
    by (simp add: ex_pia_def)
  have c1: "\<not> isLoading ?c" and c2: "currentUser ?c = Some ?pia" and c3: "userData ?c = Some ex_pia"
    by (simp_all add: onAuthStateChanged_def ex_auth_def)
  have r: "AuthLoadingScreen ?c' = ([], Some ''Finance'', ?c')"
    by (simp add: ex_auth_defs signIn_defs)
  have "fst (signIn ?e ''pia@zoom.example'' ''pw-pia'' ex_auth)
          = Inl (JsError ''Your account is pending approval. Please wait for a SuperUser to assign you a role.'')
        \<and> authUser (snd (signIn ?e ''pia@zoom.example'' ''pw-pia'' ex_auth)) = None"
    using pending_users_are_signed_out [of ?e "''pia@zoom.example''" "''pw-pia''" ex_auth _ _ ?pia ex_pia] p1 p2 p3
    by blast
  moreover have pc: "profiles_consistent (db ex_auth)"
    by (simp add: profiles_consistent_def approval_consistent_def ex_auth_defs)
  moreover have "\<not> truthy (ex_fay ''pending'') \<and> truthy (ex_fay ''designation'')
      \<and> ex_fay ''approved'' = Some (Bool True)"
    using pending_users_are_signed_out [of ?e "''fay@zoom.example''" "''pw-fay''" ex_auth ex_fay
      "snd (signIn ?e ''fay@zoom.example'' ''pw-fay'' ex_auth)"] f' pc
    by blast
  moreover have "AuthLoadingScreen ?c =
      ([Alert ''Account Pending Approval''
              ''Your account has not been approved yet. Please wait for a SuperUser to assign you a role.''],
           Some ''Login'', logout ?c)"
    using pending_users_are_signed_out [of _ _ _ _ _ _ _ _ ?c ?pia ex_pia] c1 c2 c3 p3
    by blast
  ultimately show ?thesis using f r by simp
qed

section \<open>Assigning roles\<close>

lemma db_fetchUsers [simp]: "db (fetchUsers s) = db s"
  by (simp add: fetchUsers_def)

lemma db_fetchCompanies [simp]: "db (fetchCompanies s) = db s"
  by (simp add: fetchCompanies_def)

text \<open>
  C9 (as the specification states it: since updateUser approves whenever it assigns a
  role, no user ever holds a designation while marked pending). \<^verbatim>\<open>signUp\<close> stores the
  designation of the sign-up data together with \<^verbatim>\<open>pending: true\<close>: the new user Ned
  holds the designation "payee" and is pending.
\<close>

theorem signUp_designation_while_pending:
  "stored (snd (signUp (ex_env 0 0) ''ned@acme.example'' ''pw-ned''
             [''name'' \<mapsto> Str ''Ned'', ''designation'' \<mapsto> Str ''payee'', ''company'' \<mapsto> Str ''c1'',
              ''bank'' \<mapsto> Str ''b1'', ''contact'' \<mapsto> Str ''555-0109''] ex_auth))
      ''users'' ''u9'' ''designation'' = Some (Str ''payee'')
   \<and> stored (snd (signUp (ex_env 0 0) ''ned@acme.example'' ''pw-ned''
             [''name'' \<mapsto> Str ''Ned'', ''designation'' \<mapsto> Str ''payee'', ''company'' \<mapsto> Str ''c1'',
              ''bank'' \<mapsto> Str ''b1'', ''contact'' \<mapsto> Str ''555-0109''] ex_auth))
      ''users'' ''u9'' ''pending'' = Some (Bool True)
   \<and> truthy (stored (snd (signUp (ex_env 0 0) ''ned@acme.example'' ''pw-ned''
             [''name'' \<mapsto> Str ''Ned'', ''designation'' \<mapsto> Str ''payee'', ''company'' \<mapsto> Str ''c1'',
              ''bank'' \<mapsto> Str ''b1'', ''contact'' \<mapsto> Str ''555-0109''] ex_auth))
      ''users'' ''u9'' ''pending'')"
  by (simp add: signUp_def signUpData_def defined_fields_def setDoc_def set_fields_def stored_def ex_auth_defs Let_def)

text \<open>
  C9, amended: when \<^verbatim>\<open>updateUser\<close> is called for a stored user, it reports success and
  merges one object into the profile; when the form's role is not empty that object sets
  \<^verbatim>\<open>designation\<close> to the role, \<^verbatim>\<open>pending\<close> to false and \<^verbatim>\<open>approved\<close> to true, so
  after the update this user has the designation and is not pending; when the form's user
  type is "finance" or "zoompay" it sets \<^verbatim>\<open>company\<close> and \<^verbatim>\<open>bank\<close> to null. (A user who
  has only signed up can hold a designation while pending.)
\<close>

theorem updateUser_role_approves:
  assumes "selectedUser s = Some u" and "map_of (db s ''users'') (fst u) = Some d0"
  shows "fst (updateUser e s) = [Alert ''Success'' ''User updated successfully'']
       \<and> map_of (db (snd (updateUser e s)) ''users'') (fst u)
           = Some (set_fields d0 (userUpdates (userForm s)
                     @ [(''updatedAt'', Str (isoNow e)), (''updatedBy'', Str (uid_or (authUser s) ''unknown''))]))
       \<and> (role (userForm s) \<noteq> [] \<longrightarrow>
            stored (snd (updateUser e s)) ''users'' (fst u) ''designation'' = Some (Str (role (userForm s)))
            \<and> stored (snd (updateUser e s)) ''users'' (fst u) ''pending'' = Some (Bool False)
            \<and> stored (snd (updateUser e s)) ''users'' (fst u) ''approved'' = Some (Bool True))
       \<and> (userType (userForm s) = ''finance'' \<or> userType (userForm s) = ''zoompay'' \<longrightarrow>
            stored (snd (updateUser e s)) ''users'' (fst u) ''company'' = Some Null
            \<and> stored (snd (updateUser e s)) ''users'' (fst u) ''bank'' = Some Null)"
proof -
  let ?fs = "userUpdates (userForm s) @ [(''updatedAt'', Str (isoNow e)), (''updatedBy'', Str (uid_or (authUser s) ''unknown''))]"
  from assms(2) obtain d where u: "updateDoc (db s) ''users'' (fst u) ?fs = Some d"
    by (simp add: updateDoc_def)
  with assms(1) have r: "updateUser e s = ([Alert ''Success'' ''User updated successfully''],
       fetchUsers (s\<lparr>db := d, showEditUserModal := False,
                     userForm := \<lparr>company = [], role = [], userType = ''company''\<rparr>,
                     selectedUser := None\<rparr>))"
    by (simp add: updateUser_def)
  from map_of_updateDoc [OF u, of "fst u"] assms(2)
  have m: "map_of (d ''users'') (fst u) = Some (set_fields d0 ?fs)" by simp
  have a: "set_fields d0 ?fs ''designation'' = Some (Str (role (userForm s)))"
      "set_fields d0 ?fs ''pending'' = Some (Bool False)"
      "set_fields d0 ?fs ''approved'' = Some (Bool True)"
    if "role (userForm s) \<noteq> []"
    using that by (simp_all add: set_fields_apply userUpdates_def)
  have b: "set_fields d0 ?fs ''company'' = Some Null" "set_fields d0 ?fs ''bank'' = Some Null"
    if "userType (userForm s) = ''finance'' \<or> userType (userForm s) = ''zoompay''"
    using that by (auto simp: set_fields_apply userUpdates_def)
  from m a b show ?thesis
    by (simp add: r stored_def)
qed

text \<open>
  C9, at the example: the super user gives Pia the role of checker with the user type
  "zoompay".
\<close>

theorem updateUser_witness:
  "stored (snd (updateUser (ex_env 0 0)
      (ex_superuser_screen\<lparr>selectedUser := Some (''u3'', ex_pia),
                           userForm := \<lparr>company = [], role = ''checker'', userType = ''zoompay''\<rparr>\<rparr>)))
      ''users'' ''u3'' ''designation'' = Some (Str ''checker'')
   \<and> stored (snd (updateUser (ex_env 0 0)
      (ex_superuser_screen\<lparr>selectedUser := Some (''u3'', ex_pia),
                           userForm := \<lparr>company = [], role = ''checker'', userType = ''zoompay''\<rparr>\<rparr>)))
      ''users'' ''u3'' ''pending'' = Some (Bool False)
   \<and> stored (snd (updateUser (ex_env 0 0)
      (ex_superuser_screen\<lparr>selectedUser := Some (''u3'', ex_pia),
                           userForm := \<lparr>company = [], role = ''checker'', userType = ''zoompay''\<rparr>\<rparr>)))
      ''users'' ''u3'' ''approved'' = Some (Bool True)
   \<and> stored (snd (updateUser (ex_env 0 0)
      (ex_superuser_screen\<lparr>selectedUser := Some (''u3'', ex_pia),
                           userForm := \<lparr>company = [], role = ''checker'', userType = ''zoompay''\<rparr>\<rparr>)))
      ''users'' ''u3'' ''company'' = Some Null
   \<and> stored (snd (updateUser (ex_env 0 0)
      (ex_superuser_screen\<lparr>selectedUser := Some (''u3'', ex_pia),
                           userForm := \<lparr>company = [], role = ''checker'', userType = ''zoompay''\<rparr>\<rparr>)))
      ''users'' ''u3'' ''bank'' = Some Null"
proof -
  let ?s = "ex_superuser_screen\<lparr>selectedUser := Some (''u3'', ex_pia),
                           userForm := \<lparr>company = [], role = ''checker'', userType = ''zoompay''\<rparr>\<rparr>"
  have h1: "selectedUser ?s = Some (''u3'', ex_pia)" by simp
  have h2: "map_of (db ?s ''users'') (fst (''u3'', ex_pia)) = Some ex_pia"
    by (simp add: ex_superuser_screen_def)
  have r: "role (userForm ?s) = ''checker''" and t: "userType (userForm ?s) = ''zoompay''" by simp_all
  from updateUser_role_approves [OF h1 h2, of "ex_env 0 0"] show ?thesis
    unfolding r t by simp
qed

section \<open>Deleting a company\<close>

lemma set_fields_idem: "set_fields (set_fields x fs) fs = set_fields x fs"
  by (rule ext) (simp add: set_fields_apply split: option.splits)

lemma map_of_map_update_set:
  "map_of (map (\<lambda>(k, x). if k \<in> S then (k, g x) else (k, x)) xs) j =
     (if j \<in> S then map_option g (map_of xs j) else map_of xs j)"
  by (induction xs) auto

lemma batch_commit_Cons:
  "batch_commit d col (i # ids) fs =
     (case updateDoc d col i fs of None \<Rightarrow> None | Some d1 \<Rightarrow> batch_commit d1 col ids fs)"
proof (cases "updateDoc d col i fs")
  case None
  have "fold (\<lambda>i acc. case acc of None \<Rightarrow> None | Some x \<Rightarrow> updateDoc x col i fs) ids None = None"
    by (induction ids) simp_all
  with None show ?thesis by (simp add: batch_commit_def)
next
  case (Some d1)
  then show ?thesis by (simp add: batch_commit_def)
qed

lemma batch_commit_Some:
  "set ids \<subseteq> fst ` set (d col) \<Longrightarrow>
     batch_commit d col ids fs =
       Some (d(col := map (\<lambda>(k, x). if k \<in> set ids then (k, set_fields x fs) else (k, x)) (d col)))"
proof (induction ids arbitrary: d)
  case Nil
  have "map (\<lambda>(k, x). (k, x)) (d col) = d col" by (induction "d col") auto
  then show ?case by (simp add: batch_commit_def case_prod_beta)
next
  case (Cons i ids)
  let ?d1 = "d(col := map (\<lambda>(k, x). if k = i then (k, set_fields x fs) else (k, x)) (d col))"
  from Cons.prems have "i \<in> fst ` set (d col)" by simp
  then have "map_of (d col) i \<noteq> None" by (simp add: map_of_eq_None_iff)
  then have u: "updateDoc d col i fs = Some ?d1" by (simp add: updateDoc_def)
  have keys: "fst ` set (?d1 col) = fst ` set (d col)"
    using updateDoc_ids [OF u] by (metis set_map)
  with Cons.prems have "set ids \<subseteq> fst ` set (?d1 col)" by simp
  then have ih: "batch_commit ?d1 col ids fs =
      Some (?d1(col := map (\<lambda>(k, x). if k \<in> set ids then (k, set_fields x fs) else (k, x)) (?d1 col)))"
    by (rule Cons.IH [where d = ?d1])
  have pt: "(case (case p of (k, x) \<Rightarrow> if k = i then (k, set_fields x fs) else (k, x)) of
              (k, x) \<Rightarrow> if k \<in> set ids then (k, set_fields x fs) else (k, x))
          = (case p of (k, x) \<Rightarrow> if k \<in> set (i # ids) then (k, set_fields x fs) else (k, x))" for p
    by (cases p) (simp add: set_fields_idem)
  have "map (\<lambda>(k, x). if k \<in> set ids then (k, set_fields x fs) else (k, x)) (?d1 col)
      = map (\<lambda>p. case (case p of (k, x) \<Rightarrow> if k = i then (k, set_fields x fs) else (k, x)) of
              (k, x) \<Rightarrow> if k \<in> set ids then (k, set_fields x fs) else (k, x)) (d col)"
    by (simp add: comp_def)
  also have "\<dots> = map (\<lambda>(k, x). if k \<in> set (i # ids) then (k, set_fields x fs) else (k, x)) (d col)"
    by (simp only: pt)
  finally have comb: "map (\<lambda>(k, x). if k \<in> set ids then (k, set_fields x fs) else (k, x)) (?d1 col)
      = map (\<lambda>(k, x). if k \<in> set (i # ids) then (k, set_fields x fs) else (k, x)) (d col)" .
  have "batch_commit d col (i # ids) fs = batch_commit ?d1 col ids fs"
    by (simp add: batch_commit_Cons u)
  also have "\<dots> = Some (?d1(col := map (\<lambda>(k, x). if k \<in> set (i # ids) then (k, set_fields x fs) else (k, x)) (d col)))"
    by (simp only: ih comb)
  also have "?d1(col := map (\<lambda>(k, x). if k \<in> set (i # ids) then (k, set_fields x fs) else (k, x)) (d col))
      = d(col := map (\<lambda>(k, x). if k \<in> set (i # ids) then (k, set_fields x fs) else (k, x)) (d col))"
    by (rule fun_upd_upd)
  finally show ?case .
qed

lemma map_of_filter_neq: "map_of (filter (\<lambda>(k, x). k \<noteq> i) xs) i = None"
  by (induction xs) auto

lemma deleteCompany_pressed:
  "deleteCompany True cid cname s =
     ([Alert ''Delete Company'' (''Are you sure you want to delete '' @ cname @ ''?''),
       Alert ''Success'' ''Company deleted successfully''],
      fetchUsers (fetchCompanies (s\<lparr>db := (db s)
        (''companies'' := filter (\<lambda>(k, x). k \<noteq> cid) (db s ''companies''),
         ''users'' := map (\<lambda>(k, x). if k \<in> fst ` set (where_eq ''company'' (Str cid) (db s ''users''))
                                   then (k, x(''company'' \<mapsto> Null)) else (k, x)) (db s ''users''))\<rparr>)))"
proof -
  let ?d1 = "deleteDoc (db s) ''companies'' cid"
  let ?q = "where_eq ''company'' (Str cid) (?d1 ''users'')"
  have users: "?d1 ''users'' = db s ''users''" by (simp add: deleteDoc_def)
  have "set (map fst ?q) \<subseteq> fst ` set (?d1 ''users'')" by (auto simp: where_eq_def)
  then have "batch_commit ?d1 ''users'' (map fst ?q) [(''company'', Null)] =
      Some (?d1(''users'' := map (\<lambda>(k, x). if k \<in> set (map fst ?q) then (k, set_fields x [(''company'', Null)]) else (k, x)) (?d1 ''users'')))"
    by (rule batch_commit_Some [where d = ?d1 and col = "''users''"])
  then show ?thesis
    by (simp add: deleteCompany_def Let_def users set_fields_def deleteDoc_def cong: if_cong)
qed

text \<open>
  C10: once the user has confirmed, \<^verbatim>\<open>deleteCompany\<close> reports success, the company's
  document is gone, no user profile names the deleted id any more, every profile that
  named it has \<^verbatim>\<open>company\<close> null, and if every company named by a profile existed
  before, the same holds afterwards. Without the confirmation nothing changes.
\<close>

theorem deleteCompany_clears_references:
  "fst (deleteCompany True cid cname s) =
      [Alert ''Delete Company'' (''Are you sure you want to delete '' @ cname @ ''?''),
       Alert ''Success'' ''Company deleted successfully'']
   \<and> map_of (db (snd (deleteCompany True cid cname s)) ''companies'') cid = None
   \<and> list_all (\<lambda>(i, x). x ''company'' \<noteq> Some (Str cid)) (db (snd (deleteCompany True cid cname s)) ''users'')
   \<and> (\<forall>i x. (i, x) \<in> set (db s ''users'') \<longrightarrow> x ''company'' = Some (Str cid) \<longrightarrow>
         stored (snd (deleteCompany True cid cname s)) ''users'' i ''company'' = Some Null)
   \<and> (company_refs_exist (db s) \<longrightarrow> company_refs_exist (db (snd (deleteCompany True cid cname s))))
   \<and> deleteCompany False cid cname s =
        ([Alert ''Delete Company'' (''Are you sure you want to delete '' @ cname @ ''?'')], s)"
proof -
  let ?S = "fst ` set (where_eq ''company'' (Str cid) (db s ''users''))"
  let ?us = "map (\<lambda>(k, x). if k \<in> ?S then (k, x(''company'' \<mapsto> Null)) else (k, x)) (db s ''users'')"
  let ?cs = "filter (\<lambda>(k, x). k \<noteq> cid) (db s ''companies'')"
  let ?r = "deleteCompany True cid cname s"
  have dbu: "db (snd ?r) ''users'' = ?us" and dbc: "db (snd ?r) ''companies'' = ?cs"
    by (simp_all add: deleteCompany_pressed)
  have 1: "fst ?r = [Alert ''Delete Company'' (''Are you sure you want to delete '' @ cname @ ''?''),
       Alert ''Success'' ''Company deleted successfully'']"
    by (simp add: deleteCompany_pressed)
  have 2: "map_of (db (snd ?r) ''companies'') cid = None"
    by (simp add: dbc map_of_filter_neq)
  have inS: "k \<in> ?S" if "(k, x) \<in> set (db s ''users'')" "x ''company'' = Some (Str cid)" for k x
    using that by (force simp: where_eq_def)
  have 3: "list_all (\<lambda>(i, x). x ''company'' \<noteq> Some (Str cid)) (db (snd ?r) ''users'')"
    unfolding dbu list_all_iff using inS by (auto split: if_splits)
  have 4: "stored (snd ?r) ''users'' i ''company'' = Some Null"
    if m: "(i, x) \<in> set (db s ''users'')" and c: "x ''company'' = Some (Str cid)" for i x
  proof -
    from inS [OF m c] have i: "i \<in> ?S" .
    from m have "map_of (db s ''users'') i \<noteq> None"
      by (metis map_of_eq_None_iff fst_conv image_eqI)
    then obtain y where y: "map_of (db s ''users'') i = Some y" by blast
    have "map_of ?us i = (if i \<in> ?S then map_option (\<lambda>x. x(''company'' \<mapsto> Null)) (map_of (db s ''users'') i)
                          else map_of (db s ''users'') i)"
      by (rule map_of_map_update_set)
    with i y show ?thesis by (simp add: stored_def dbu)
  qed
  have 5: "company_refs_exist (db (snd ?r))" if ok: "company_refs_exist (db s)"
  proof -
    have "case x' ''company'' of Some (Str c) \<Rightarrow> c \<in> set (map fst ?cs) | _ \<Rightarrow> True"
      if m: "(k, x') \<in> set ?us" for k x'
    proof -
      from m obtain x where x: "(k, x) \<in> set (db s ''users'')"
        and x': "x' = (if k \<in> ?S then x(''company'' \<mapsto> Null) else x)"
        by (auto split: if_splits)
      show ?thesis
      proof (cases "k \<in> ?S")
        case True
        with x' show ?thesis by simp
      next
        case False
        with x' have e: "x' = x" by simp
        show ?thesis
        proof (cases "x ''company''")
          case None
          with e show ?thesis by simp
        next
          case (Some v)
          show ?thesis
          proof (cases v)
            case (Str c)
            with Some inS [OF x] False have "c \<noteq> cid" by auto
            moreover from ok x Some Str have "c \<in> set (map fst (db s ''companies''))"
              by (auto simp: company_refs_exist_def list_all_iff)
            ultimately have "c \<in> set (map fst ?cs)" by auto
            with e Some Str show ?thesis by simp
          qed (use e Some in simp_all)
        qed
      qed
    qed
    note elem = this
    have "\<forall>p \<in> set ?us. case p of (i, x) \<Rightarrow>
        (case x ''company'' of Some (Str c) \<Rightarrow> c \<in> set (map fst ?cs) | _ \<Rightarrow> True)"
    proof
      fix p
      assume m: "p \<in> set ?us"
      obtain k x' where p: "p = (k, x')" by (cases p)
      from m have "(k, x') \<in> set ?us" unfolding p .
      from elem [OF this]
      show "case p of (i, x) \<Rightarrow>
        (case x ''company'' of Some (Str c) \<Rightarrow> c \<in> set (map fst ?cs) | _ \<Rightarrow> True)"
        unfolding p by simp
    qed
    then show ?thesis
      unfolding company_refs_exist_def list_all_iff dbu dbc .
  qed
  have 6: "deleteCompany False cid cname s =
        ([Alert ''Delete Company'' (''Are you sure you want to delete '' @ cname @ ''?'')], s)"
    by (simp add: deleteCompany_def)
  from 1 2 3 4 5 6 show ?thesis by blast
qed

text \<open>
  C10, at the example: the company c1 of the user u6 is deleted.
\<close>

theorem deleteCompany_witness:
  "company_refs_exist (db ex_superuser_screen)
   \<and> stored ex_superuser_screen ''users'' ''u6'' ''company'' = Some (Str ''c1'')
   \<and> company_refs_exist (db (snd (deleteCompany True ''c1'' ''Acme'' ex_superuser_screen)))
   \<and> stored (snd (deleteCompany True ''c1'' ''Acme'' ex_superuser_screen)) ''users'' ''u6'' ''company'' = Some Null
   \<and> map_of (db (snd (deleteCompany True ''c1'' ''Acme'' ex_superuser_screen)) ''companies'') ''c1'' = None"
proof -
  have a: "company_refs_exist (db ex_superuser_screen)"
    by (simp add: company_refs_exist_def ex_superuser_defs)
  have b: "(''u6'', ex_cam) \<in> set (db ex_superuser_screen ''users'')"
    by (simp add: ex_superuser_screen_def)
  have c: "ex_cam ''company'' = Some (Str ''c1'')"
    by (simp add: ex_cam_def)
  have d: "stored ex_superuser_screen ''users'' ''u6'' ''company'' = Some (Str ''c1'')"
    by (simp add: stored_def ex_superuser_defs)
  from deleteCompany_clears_references [of "''c1''" "''Acme''" ex_superuser_screen] a b c d
  show ?thesis by blast
qed

section \<open>The approval flags of the stored profiles\<close>

text \<open>
  Every operation that writes a profile keeps \<^verbatim>\<open>approved\<close> the opposite of \<^verbatim>\<open>pending\<close>.
\<close>

lemma signUpData_consistent: "approval_consistent (signUpData e em data)"
  by (simp add: approval_consistent_def signUpData_def set_fields_apply defined_fields_def
      split: option.splits)

lemma userUpdates_consistent:
  "approval_consistent d \<Longrightarrow>
     approval_consistent (set_fields d (userUpdates f @ [(''updatedAt'', a), (''updatedBy'', b)]))"
  by (auto simp: approval_consistent_def set_fields_apply userUpdates_def)

lemma company_null_consistent:
  "approval_consistent d \<Longrightarrow> approval_consistent (set_fields d [(''company'', Null)])"
  by (auto simp: approval_consistent_def set_fields_apply)

lemma profiles_consistent_signUp:
  "profiles_consistent (db s) \<Longrightarrow> profiles_consistent (db (snd (signUp e em pw data s)))"
  by (auto simp: profiles_consistent_def signUp_def Let_def setDoc_def signUpData_consistent list_all_iff)

lemma profiles_consistent_updateDoc:
  assumes "updateDoc d ''users'' i fs = Some d'" "profiles_consistent d"
    "\<And>x. approval_consistent x \<Longrightarrow> approval_consistent (set_fields x fs)"
  shows "profiles_consistent d'"
  using assms(1)[THEN updateDoc_Some] assms(2,3)
  by (auto simp: profiles_consistent_def list_all_iff split: if_splits)

lemma profiles_consistent_updateUser:
  "profiles_consistent (db s) \<Longrightarrow> profiles_consistent (db (snd (updateUser e s)))"
proof -
  assume c: "profiles_consistent (db s)"
  show ?thesis
  proof (cases "selectedUser s")
    case None
    with c show ?thesis by (simp add: updateUser_def)
  next
    case (Some u)
    let ?fs = "userUpdates (userForm s) @ [(''updatedAt'', Str (isoNow e)), (''updatedBy'', Str (uid_or (authUser s) ''unknown''))]"
    show ?thesis
    proof (cases "updateDoc (db s) ''users'' (fst u) ?fs")
      case None
      with Some c show ?thesis by (simp add: updateUser_def)
    next
      case (Some d)
      from profiles_consistent_updateDoc [OF Some c userUpdates_consistent]
      have "profiles_consistent d" .
      with Some \<open>selectedUser s = Some u\<close> show ?thesis by (simp add: updateUser_def)
    qed
  qed
qed

lemma profiles_consistent_deleteCompany:
  "profiles_consistent (db s) \<Longrightarrow> profiles_consistent (db (snd (deleteCompany b cid cname s)))"
proof (cases b)
  case False
  assume "profiles_consistent (db s)"
  with False show ?thesis by (simp add: deleteCompany_def)
next
  case True
  assume c: "profiles_consistent (db s)"
  have "approval_consistent (x(''company'' \<mapsto> Null))" if "approval_consistent x" for x
    using company_null_consistent [OF that] by (simp add: set_fields_def)
  with c have "profiles_consistent (db (snd (deleteCompany True cid cname s)))"
    by (auto simp: deleteCompany_pressed profiles_consistent_def list_all_iff split: if_splits)
  with True show ?thesis by simp
qed

end
